theory Spec2Isabelle
  imports Main "HOL-Library.AList"
begin

section \<open>The \<open>prisma version\<close> command (packages/cli/src/Version.ts)\<close>

text \<open>
  A shallow embedding of the class \<open>Version\<close> and of the function \<open>slugify\<close>.
  Everything the command imports from other packages (the SDK, the platform detector,
  \<open>fs\<close>, \<open>path\<close>, \<open>chalk\<close>) is a field of the record \<open>world\<close>, so each theorem
  holds for every behaviour of these collaborators.  A thrown exception or a rejected
  promise is the left injection of a sum.
\<close>

subsection \<open>Strings and the string built-ins the command calls\<close>

text \<open>
  A JavaScript string is the list of its UTF-16 code units.  The model covers code units
  below 256 (the Latin-1 range), one \<^typ>\<open>char\<close> each, so \<^const>\<open>length\<close> is the
  \<open>.length\<close> of the source.  Every label the command writes is in that range.
\<close>

text \<open>\<open>Array.prototype.join\<close> on an array of strings.\<close>

fun join :: "string \<Rightarrow> string list \<Rightarrow> string" where
  "join sep [] = []"
| "join sep [x] = x"
| "join sep (x # y # ys) = x @ sep @ join sep (y # ys)"

text \<open>
  \<open>String.prototype.padEnd(maxLength)\<close> with the default filler, a space: a string that
  is long enough is returned as it is.
\<close>

definition padEnd :: "string \<Rightarrow> nat \<Rightarrow> string" where
  "padEnd s maxLength =
     (if maxLength \<le> length s then s
      else s @ replicate (maxLength - length s) (CHR '' ''))"

text \<open>
  The class \<open>\s\<close> of a regular expression: the white space and line terminator code
  units.  Below 256 these are TAB, LF, VT, FF, CR, SP and NBSP.
\<close>

definition isSpace :: "char \<Rightarrow> bool" where
  "isSpace c = (of_char c \<in> {9, 10, 11, 12, 13, 32, 160 :: nat})"

text \<open>
  \<open>String.prototype.toLowerCase\<close>, one code unit at a time.  Below 256 the upper case
  letters are A to Z (65 to 90) and the accented capitals 192 to 222 without the
  multiplication sign 215; the lower case letter is 32 higher, which sets bit 5 (clear in
  both ranges).
\<close>

definition isUpperCase :: "char \<Rightarrow> bool" where
  "isUpperCase c =
     (let n = (of_char c :: nat)
      in (65 \<le> n \<and> n \<le> 90) \<or> (192 \<le> n \<and> n \<le> 222 \<and> n \<noteq> 215))"

definition toLowerCase_unit :: "char \<Rightarrow> char" where
  "toLowerCase_unit c =
     (if isUpperCase c
      then Char (digit0 c) (digit1 c) (digit2 c) (digit3 c) (digit4 c) True (digit6 c) (digit7 c)
      else c)"

definition toLowerCase :: "string \<Rightarrow> string" where
  "toLowerCase s = map toLowerCase_unit s"

text \<open>
  \<open>.replace(/\s+/g, '-')\<close>: scanning from the left, the longest run of white space that
  starts at the current position is replaced by one hyphen and the scan goes on behind it.
\<close>

function replace_ws :: "string \<Rightarrow> string" where
  "replace_ws [] = []"
| "replace_ws (c # cs) =
     (if isSpace c then CHR ''-'' # replace_ws (dropWhile isSpace cs)
      else c # replace_ws cs)"
  by pat_completeness auto
termination
  by (relation "measure length") (auto simp: less_Suc_eq_le length_dropWhile_le)

text \<open>\<open>function slugify(str)\<close>; \<open>toString\<close> of a string is the string.\<close>

definition slugify :: "string \<Rightarrow> string" where
  "slugify str = replace_ws (toLowerCase str)"

subsection \<open>The object built in JSON mode and \<open>JSON.stringify\<close>\<close>

text \<open>
  The accumulator of \<open>rows.reduce\<close> starts as \<open>{}\<close> and only ever receives string
  values, so it is the list of its own properties in the order of their creation.
\<close>

type_synonym js_object = "(string \<times> string) list"

text \<open>
  The assignment \<open>acc[key] = value\<close> on an ordinary object: an existing own property
  keeps its place and takes the new value, a new key is added behind the others.  The key
  \<open>__proto__\<close> is the accessor inherited from \<open>Object.prototype\<close>, whose setter ignores a
  value that is neither an object nor null: no own property is made for it.
\<close>

definition obj_set :: "js_object \<Rightarrow> string \<Rightarrow> string \<Rightarrow> js_object" where
  "obj_set acc key v = (if key = ''__proto__'' then acc else AList.update key v acc)"

text \<open>
  The order in which the own properties of an object are listed: first the keys that are
  array indices (the canonical decimal numerals of 0 up to 2^32 - 2), by ascending value,
  then the other keys in the order of creation.
\<close>

definition isDigit :: "char \<Rightarrow> bool" where
  "isDigit c = (48 \<le> (of_char c :: nat) \<and> (of_char c :: nat) \<le> 57)"

definition toNumber :: "string \<Rightarrow> nat" where
  "toNumber s = foldl (\<lambda>a c. 10 * a + (of_char c - 48)) 0 s"

definition isArrayIndex :: "string \<Rightarrow> bool" where
  "isArrayIndex k =
     (k \<noteq> [] \<and> list_all isDigit k \<and> (k = ''0'' \<or> hd k \<noteq> CHR ''0'')
      \<and> toNumber k < 2 ^ 32 - 1)"

definition ownEntries :: "js_object \<Rightarrow> (string \<times> string) list" where
  "ownEntries obj =
     sort_key (\<lambda>(k, v). toNumber k) (filter (\<lambda>(k, v). isArrayIndex k) obj)
     @ filter (\<lambda>(k, v). \<not> isArrayIndex k) obj"

text \<open>
  \<open>QuoteJSONString\<close>: the string between double quotes, with the double quote, the
  backslash and the control characters below 32 escaped.
\<close>

definition hexDigit :: "nat \<Rightarrow> char" where
  "hexDigit n = (''0123456789abcdef'') ! (n mod 16)"

definition quoteUnit :: "char \<Rightarrow> string" where
  "quoteUnit c =
     (let n = (of_char c :: nat)
      in if n = 8 then [CHR 0x5C, CHR ''b'']
         else if n = 9 then [CHR 0x5C, CHR ''t'']
         else if n = 10 then [CHR 0x5C, CHR ''n'']
         else if n = 12 then [CHR 0x5C, CHR ''f'']
         else if n = 13 then [CHR 0x5C, CHR ''r'']
         else if n = 34 then [CHR 0x5C, CHR 0x22]
         else if n = 92 then [CHR 0x5C, CHR 0x5C]
         else if n < 32 then [CHR 0x5C, CHR ''u'', CHR ''0'', CHR ''0'', hexDigit (n div 16), hexDigit n]
         else [c])"

definition quoteJSONString :: "string \<Rightarrow> string" where
  "quoteJSONString s = [CHR 0x22] @ concat (map quoteUnit s) @ [CHR 0x22]"

text \<open>
  \<open>JSON.stringify(obj, null, gap)\<close> for an object whose values are strings, at nesting
  depth 0: \<open>{}\<close> for the empty object; otherwise one member on each line, behind the
  indentation \<open>gap\<close>, the members separated by a comma.
\<close>

definition memberJSON :: "string \<times> string \<Rightarrow> string" where
  "memberJSON = (\<lambda>(k, v). quoteJSONString k @ '': '' @ quoteJSONString v)"

definition JSON_stringify :: "js_object \<Rightarrow> string \<Rightarrow> string" where
  "JSON_stringify obj gap =
     (let partial = map memberJSON (ownEntries obj)
      in if partial = [] then ''{}''
         else ''{'' @ ''\<newline>'' @ gap @ join ('','' @ ''\<newline>'' @ gap) partial
              @ ''\<newline>'' @ ''}'')"

subsection \<open>\<open>Version.printTable\<close>\<close>

type_synonym row = "string \<times> string"

definition toObject :: "row list \<Rightarrow> js_object" where
  "toObject rows = foldl (\<lambda>acc (name, v). obj_set acc (slugify name) v) [] rows"

definition maxPad :: "row list \<Rightarrow> nat" where
  "maxPad rows = foldl (\<lambda>acc curr. max acc (length (fst curr))) 0 rows"

definition printTable :: "row list \<Rightarrow> bool \<Rightarrow> string" where
  "printTable rows json =
     (if json then JSON_stringify (toObject rows) ''  ''
      else join ''\<newline>''
             (map (\<lambda>(left, right). padEnd left (maxPad rows) @ '' : '' @ right) rows))"

subsection \<open>What the command imports\<close>

text \<open>
  Modelled from the spec: the enumeration \<open>EngineType\<close> is declared in the SDK, outside
  the sources.  Its members are the four kinds the command names and the binary query
  engine, the other value \<open>getCliQueryEngineType\<close> can return.
\<close>

datatype EngineType =
  queryEngine | libqueryEngine | migrationEngine | introspectionEngine | prismaFmt

text \<open>A thrown exception or a rejected promise, with its \<open>message\<close>.\<close>

datatype error = Error (message: string)

text \<open>
  \<open>await p\<close> followed by the rest of the function: a rejected promise leaves the
  function at once with the same error.
\<close>

definition await :: "error + 'a \<Rightarrow> ('a \<Rightarrow> error + 'b) \<Rightarrow> error + 'b" where
  "await p k = (case p of Inl e \<Rightarrow> Inl e | Inr x \<Rightarrow> k x)"

text \<open>The truth value of a \<open>string | undefined | null\<close>: only a non-empty string is truthy.\<close>

definition truthy :: "string option \<Rightarrow> bool" where
  "truthy s = (case s of None \<Rightarrow> False | Some p \<Rightarrow> p \<noteq> [])"

record EngineInfo =
  path :: string
  version :: string
  fromEnvVar :: "string option"

text \<open>Of a generator and of the config only the fields the command reads.\<close>

record GeneratorConfig =
  previewFeatures :: "string list"

record ConfigMetaFormat =
  generators :: "GeneratorConfig list"

text \<open>
  The result of \<open>arg\<close> when it is not an error.  An absent boolean flag is
  \<open>undefined\<close>, which is falsy and takes the default \<open>false\<close> of \<open>printTable\<close>.
\<close>

record Args =
  arg_help :: bool
  arg_version :: bool
  arg_json :: bool
  arg_telemetry_information :: "string option"
  arg_positional :: "string list"

text \<open>
  The collaborators.  \<open>files\<close> is the set of paths that exist on disk; \<open>loadEnvFile\<close>
  maps the environment to the environment with the variables of the \<open>.env\<close> files added.
\<close>

record world =
  process_env :: "string \<rightharpoonup> string"
  files :: "string set"
  cwd :: string
  path_relative :: "string \<Rightarrow> string \<Rightarrow> string"
  engineEnvVarMap :: "EngineType \<Rightarrow> string"
  getVersion :: "string \<Rightarrow> EngineType \<Rightarrow> error + string"
  resolveEnginePath :: "EngineType \<Rightarrow> error + string"
  getCliQueryEngineType :: EngineType
  getPlatform :: "error + string"
  getInstalledPrismaClientVersion :: "error + string option"
  getSchemaPath :: "error + string option"
  getSchema :: "error + string"
  getConfig :: "string \<Rightarrow> error + ConfigMetaFormat"
  loadEnvFile :: "(string \<rightharpoonup> string) \<Rightarrow> error + (string \<rightharpoonup> string)"
  arg :: "string list \<Rightarrow> error + Args"
  format :: "string \<Rightarrow> string"
  chalk_bold :: "string \<Rightarrow> string"
  chalk_dim :: "string \<Rightarrow> string"
  chalk_bold_red :: "string \<Rightarrow> string"

text \<open>\<open>fs.existsSync\<close>; the empty string names no file.\<close>

definition existsSync :: "world \<Rightarrow> string \<Rightarrow> bool" where
  "existsSync w p = (p \<noteq> [] \<and> p \<in> files w)"

text \<open>The fields of \<open>package.json\<close> that the command reads.\<close>

definition packageJson_name :: string where
  "packageJson_name = ''prisma''"

definition packageJson_version :: string where
  "packageJson_version = ''0.0.0''"

definition packageJson_studio_server :: string where
  "packageJson_studio_server = ''0.460.0''"

definition packageJson_engines :: string where
  "packageJson_engines = ''3.15.0-11.1c05d2fd02981d04d5367319e82f44e1c44ec0b7''"

text \<open>
  \<open>String.prototype.split\<close> with a separator of one code unit; the result is never
  empty, so \<open>pop\<close> on it is its last element.
\<close>

fun split_at :: "char \<Rightarrow> string \<Rightarrow> string list" where
  "split_at sep [] = [[]]"
| "split_at sep (c # cs) =
     (if c = sep then [] # split_at sep cs
      else (case split_at sep cs of [] \<Rightarrow> [[c]] | p # ps \<Rightarrow> (c # p) # ps))"

subsection \<open>The class \<open>Version\<close>\<close>

text \<open>The static member \<open>Version.help\<close>: the template, through \<open>format\<close>.\<close>

definition Version_help :: "world \<Rightarrow> string" where
  "Version_help w =
     format w (join ''\<newline>''
       ['''',
        ''  Print current version of Prisma components'',
        '''',
        ''  '' @ chalk_bold w ''Usage'',
        '''',
        ''    '' @ chalk_dim w ''$'' @ '' prisma -v [options]'',
        ''    '' @ chalk_dim w ''$'' @ '' prisma version [options]'',
        '''',
        ''  '' @ chalk_bold w ''Options'',
        '''',
        ''    -h, --help     Display this help message'',
        ''        --json     Output JSON'',
        ''''])"

text \<open>
  What \<open>parse\<close> resolves to: a string, or the \<open>HelpError\<close> object with its message.
\<close>

datatype result = Text string | HelpError string

text \<open>The method \<open>help(error?)\<close>.\<close>

definition help_method :: "world \<Rightarrow> string option \<Rightarrow> result" where
  "help_method w err =
     (case err of
        None \<Rightarrow> Text (Version_help w)
      | Some e \<Rightarrow>
          if e \<noteq> []
          then HelpError (''\<newline>'' @ chalk_bold_red w ''!'' @ '' '' @ e
                          @ ''\<newline>'' @ Version_help w)
          else Text (Version_help w))"

definition getEngineInfo :: "world \<Rightarrow> EngineType \<Rightarrow> error + EngineInfo" where
  "getEngineInfo w engineType =
     (let envVar = engineEnvVarMap w engineType;
          pathFromEnv = process_env w envVar
      in case (case pathFromEnv of
                 None \<Rightarrow> None
               | Some p \<Rightarrow> if p \<noteq> [] \<and> existsSync w p then Some p else None) of
           Some p \<Rightarrow>
             await (getVersion w p engineType) (\<lambda>v.
             Inr \<lparr>path = p, version = v, fromEnvVar = Some envVar\<rparr>)
         | None \<Rightarrow>
             await (resolveEnginePath w engineType) (\<lambda>enginePath.
             await (getVersion w enginePath engineType) (\<lambda>v.
             Inr \<lparr>path = enginePath, version = v, fromEnvVar = None\<rparr>)))"

definition constructEngineInfoString :: "world \<Rightarrow> EngineInfo \<Rightarrow> string" where
  "constructEngineInfoString w info =
     (let resolved = (case fromEnvVar info of
                        None \<Rightarrow> ''''
                      | Some v \<Rightarrow> if v \<noteq> [] then '', resolved by '' @ v else '''')
      in version info @ '' (at '' @ path_relative w (cwd w) (path info) @ resolved @ '')'')"

text \<open>
  The \<open>try\<close> block is the inner \<open>case\<close>: an error of \<open>getSchema\<close> or of \<open>getConfig\<close>
  reaches the empty \<open>catch\<close> and the function goes on to its last line.
\<close>

definition getFeatureFlags :: "world \<Rightarrow> string option \<Rightarrow> error + string list" where
  "getFeatureFlags w schemaPath =
     (if \<not> truthy schemaPath then Inr []
      else case await (getSchema w) (\<lambda>datamodel.
                await (getConfig w datamodel) (\<lambda>config.
                Inr (find (\<lambda>g. previewFeatures g \<noteq> []) (generators config)))) of
             Inr (Some generator) \<Rightarrow> Inr (previewFeatures generator)
           | Inr None \<Rightarrow> Inr []
           | Inl e \<Rightarrow> Inr [])"

text \<open>
  Lines 74 to 103 of \<open>parse\<close>: the rows of the report.  The four \<open>EngineInfo\<close> values
  are named \<open>queryEngine\<close>, \<open>migrationEngine\<close>, ... in the source.
\<close>

definition versionInfoRows :: "world \<Rightarrow> error + row list" where
  "versionInfoRows w =
     await (getInstalledPrismaClientVersion w) (\<lambda>prismaClientVersion.
     await (getPlatform w) (\<lambda>platform.
     let cliQueryEngineType = getCliQueryEngineType w in
     await (getEngineInfo w cliQueryEngineType) (\<lambda>queryEngineInfo.
     await (getEngineInfo w migrationEngine) (\<lambda>migrationEngineInfo.
     await (getEngineInfo w introspectionEngine) (\<lambda>introspectionEngineInfo.
     await (getEngineInfo w prismaFmt) (\<lambda>fmtEngineInfo.
     let versionInfoRows =
       [(packageJson_name, packageJson_version),
        (''@prisma/client'',
           (case prismaClientVersion of None \<Rightarrow> ''Not found'' | Some v \<Rightarrow> v)),
        (''Current platform'', platform),
        (''Query Engine''
           @ (if cliQueryEngineType = libqueryEngine then '' (Node-API)'' else '' (Binary)''),
         constructEngineInfoString w queryEngineInfo),
        (''Migration Engine'', constructEngineInfoString w migrationEngineInfo),
        (''Introspection Engine'', constructEngineInfoString w introspectionEngineInfo),
        (''Format Engine'', constructEngineInfoString w fmtEngineInfo),
        (''Studio'', packageJson_studio_server),
        (''Default Engines Hash'', last (split_at (CHR ''.'') packageJson_engines))]
     in
     await (getSchemaPath w) (\<lambda>schemaPath.
     await (getFeatureFlags w schemaPath) (\<lambda>featureFlags.
     Inr (if featureFlags \<noteq> []
          then versionInfoRows @ [(''Preview Features'', join '', '' featureFlags)]
          else versionInfoRows)))))))))"

definition parse :: "world \<Rightarrow> string list \<Rightarrow> error + result" where
  "parse w argv =
     (case arg w argv of
        Inl e \<Rightarrow> Inr (help_method w (Some (message e)))
      | Inr args \<Rightarrow>
          if arg_help args then Inr (help_method w None)
          else
            await (loadEnvFile w (process_env w)) (\<lambda>env.
            await (versionInfoRows (w\<lparr>process_env := env\<rparr>)) (\<lambda>rows.
            Inr (Text (printTable rows (arg_json args))))))"

section \<open>The slugification rule, in the words of the specification\<close>

text \<open>
  The decomposition of a list into its maximal runs of elements of the same class.
\<close>

primrec runs :: "('a \<Rightarrow> bool) \<Rightarrow> 'a list \<Rightarrow> 'a list list" where
  "runs P [] = []"
| "runs P (x # xs) =
     (case runs P xs of
        [] \<Rightarrow> [[x]]
      | r # rs \<Rightarrow> if P x = P (hd r) then (x # r) # rs else [x] # r # rs)"

text \<open>
  Lowercased, with every maximal run of white space replaced by a single hyphen.
\<close>

definition slugify_spec :: "string \<Rightarrow> string" where
  "slugify_spec label =
     concat (map (\<lambda>r. if isSpace (hd r) then ''-'' else r) (runs isSpace (toLowerCase label)))"

text \<open>The rows with their labels slugified.\<close>

definition slugRows :: "row list \<Rightarrow> (string \<times> string) list" where
  "slugRows rows = map (\<lambda>(name, v). (slugify name, v)) rows"

section \<open>An installation to run the command on\<close>

text \<open>
  A concrete world: the library query engine is overridden by an environment variable
  that names an existing file, the format engine by one that names a missing file; the
  schema has two generators, the second with the preview features \<open>a\<close>, \<open>b\<close> and \<open>c\<close>.
\<close>

definition demo_engineEnvVarMap :: "EngineType \<Rightarrow> string" where
  "demo_engineEnvVarMap engineType =
     (case engineType of
        queryEngine \<Rightarrow> ''PRISMA_QUERY_ENGINE_BINARY''
      | libqueryEngine \<Rightarrow> ''PRISMA_QUERY_ENGINE_LIBRARY''
      | migrationEngine \<Rightarrow> ''PRISMA_MIGRATION_ENGINE_BINARY''
      | introspectionEngine \<Rightarrow> ''PRISMA_INTROSPECTION_ENGINE_BINARY''
      | prismaFmt \<Rightarrow> ''PRISMA_FMT_BINARY'')"

definition demo_resolveEnginePath :: "EngineType \<Rightarrow> error + string" where
  "demo_resolveEnginePath engineType =
     Inr (case engineType of
            queryEngine \<Rightarrow> ''/cli/engines/query-engine''
          | libqueryEngine \<Rightarrow> ''/cli/engines/libquery.node''
          | migrationEngine \<Rightarrow> ''/cli/engines/migration''
          | introspectionEngine \<Rightarrow> ''/cli/engines/introspection''
          | prismaFmt \<Rightarrow> ''/cli/engines/fmt'')"

definition demo_relative :: "string \<Rightarrow> string \<Rightarrow> string" where
  "demo_relative from to =
     (if take (length from + 1) to = from @ ''/'' then drop (length from + 1) to else to)"

text \<open>
  A stand-in for the argument parser of the SDK, which is outside the sources.  Like that
  parser it reads the options from the left, stops at the first positional argument and
  leaves that argument and everything behind it in \<open>_\<close>, and reports an option it does
  not know as an error.  It knows the options \<open>parse\<close> declares; grouped short options
  (\<open>-hv\<close>) and the form \<open>--option=value\<close> are left out.
\<close>

fun demo_arg_from :: "string list \<Rightarrow> Args \<Rightarrow> error + Args" where
  "demo_arg_from [] r = Inr r"
| "demo_arg_from (a # rest) r =
     (if a = ''--'' then Inr (r\<lparr>arg_positional := rest\<rparr>)
      else if a = ''--help'' \<or> a = ''-h'' then demo_arg_from rest (r\<lparr>arg_help := True\<rparr>)
      else if a = ''--version'' \<or> a = ''-v'' then demo_arg_from rest (r\<lparr>arg_version := True\<rparr>)
      else if a = ''--json'' then demo_arg_from rest (r\<lparr>arg_json := True\<rparr>)
      else if a = ''--telemetry-information'' then
        (case rest of
           [] \<Rightarrow> Inl (Error (''option requires argument: '' @ a))
         | v # rest' \<Rightarrow>
             if 1 < length v \<and> hd v = CHR ''-''
             then Inl (Error (''option requires argument: '' @ a))
             else demo_arg_from rest' (r\<lparr>arg_telemetry_information := Some v\<rparr>))
      else if 1 < length a \<and> hd a = CHR ''-''
        then Inl (Error (''unknown or unexpected option: '' @ a))
      else Inr (r\<lparr>arg_positional := a # rest\<rparr>))"

definition demo_arg :: "string list \<Rightarrow> error + Args" where
  "demo_arg argv =
     demo_arg_from argv
       \<lparr>arg_help = False, arg_version = False, arg_json = False,
        arg_telemetry_information = None, arg_positional = []\<rparr>"

definition demo_world :: world where
  "demo_world =
     \<lparr>process_env = [''PRISMA_QUERY_ENGINE_LIBRARY'' \<mapsto> ''/cli/custom/libquery.node'',
                     ''PRISMA_FMT_BINARY'' \<mapsto> ''/missing/fmt''],
      files = {''/cli/custom/libquery.node'', ''/cli/engines/migration'',
               ''/cli/engines/introspection'', ''/cli/engines/fmt''},
      cwd = ''/cli'',
      path_relative = demo_relative,
      engineEnvVarMap = demo_engineEnvVarMap,
      getVersion = (\<lambda>p engineType. Inr ''1c05d2f''),
      resolveEnginePath = demo_resolveEnginePath,
      getCliQueryEngineType = libqueryEngine,
      getPlatform = Inr ''debian'',
      getInstalledPrismaClientVersion = Inr None,
      getSchemaPath = Inr (Some ''/cli/schema.prisma''),
      getSchema = Inr ''generator client'',
      getConfig = (\<lambda>datamodel.
         Inr \<lparr>generators = [\<lparr>previewFeatures = []\<rparr>, \<lparr>previewFeatures = [''a'', ''b'', ''c'']\<rparr>]\<rparr>),
      loadEnvFile = (\<lambda>env. Inr env),
      arg = demo_arg,
      format = (\<lambda>s. s),
      chalk_bold = (\<lambda>s. s),
      chalk_dim = (\<lambda>s. s),
      chalk_bold_red = (\<lambda>s. s)\<rparr>"

text \<open>The same installation, where running an engine binary fails.\<close>

definition broken_world :: world where
  "broken_world = demo_world\<lparr>getVersion := (\<lambda>p engineType. Inl (Error ''EACCES''))\<rparr>"

text \<open>The same installation, where the schema cannot be read.\<close>

definition invalid_schema_world :: world where
  "invalid_schema_world = demo_world\<lparr>getSchema := Inl (Error ''invalid schema'')\<rparr>"

text \<open>The same installation with no schema file.\<close>

definition no_schema_world :: world where
  "no_schema_world = demo_world\<lparr>getSchemaPath := Inr None\<rparr>"

text \<open>
  The same installation with the client library installed and the binary query engine
  as the query engine of the CLI.
\<close>

definition binary_world :: world where
  "binary_world =
     demo_world\<lparr>getInstalledPrismaClientVersion := Inr (Some ''3.15.0''),
                getCliQueryEngineType := queryEngine\<rparr>"

text \<open>The rows of the report of that installation.\<close>

definition demo_rows :: "row list" where
  "demo_rows =
     [(''prisma'', ''0.0.0''),
      (''@prisma/client'', ''Not found''),
      (''Current platform'', ''debian''),
      (''Query Engine (Node-API)'',
       ''1c05d2f (at custom/libquery.node, resolved by PRISMA_QUERY_ENGINE_LIBRARY)''),
      (''Migration Engine'', ''1c05d2f (at engines/migration)''),
      (''Introspection Engine'', ''1c05d2f (at engines/introspection)''),
      (''Format Engine'', ''1c05d2f (at engines/fmt)''),
      (''Studio'', ''0.460.0''),
      (''Default Engines Hash'', ''1c05d2fd02981d04d5367319e82f44e1c44ec0b7''),
      (''Preview Features'', ''a, b, c'')]"

text \<open>
  The value of an engine row: the version, then in brackets the path relative to the
  working directory and, when the path came from an environment variable, its name.
\<close>

definition engineRowValue :: "world \<Rightarrow> EngineInfo \<Rightarrow> string" where
  "engineRowValue w info =
     version info @ '' (at '' @ path_relative w (cwd w) (path info)
     @ (case fromEnvVar info of
          None \<Rightarrow> ''''
        | Some envVar \<Rightarrow> if envVar = [] then '''' else '', resolved by '' @ envVar)
     @ '')''"

section \<open>Text output\<close>

lemma foldl_max_length:
  "foldl (\<lambda>acc curr. max acc (length (fst curr))) a rows
     = Max (insert a (set (map (length \<circ> fst) rows)))"
proof (induction rows arbitrary: a)
  case Nil
  then show ?case by simp
next
  case (Cons r rows)
  have "Max (insert (max a (length (fst r))) (set (map (length \<circ> fst) rows)))
          = Max (insert a (insert (length (fst r)) (set (map (length \<circ> fst) rows))))"
    by (cases "set (map (length \<circ> fst) rows) = {}") (simp_all add: max.assoc)
  with Cons show ?case by simp
qed

lemma maxPad_Max:
  assumes "rows \<noteq> []"
  shows "maxPad rows = Max (set (map (length \<circ> fst) rows))"
proof -
  have "set (map (length \<circ> fst) rows) \<noteq> {}"
    using assms by simp
  then have "Max (insert 0 (set (map (length \<circ> fst) rows))) = Max (set (map (length \<circ> fst) rows))"
    by simp
  then show ?thesis
    by (simp add: maxPad_def foldl_max_length)
qed

lemma maxPad_ge:
  assumes "(l, r) \<in> set rows"
  shows "length l \<le> maxPad rows"
proof -
  have "length l \<in> set (map (length \<circ> fst) rows)"
    using assms by force
  then have "length l \<le> Max (insert 0 (set (map (length \<circ> fst) rows)))"
    by (intro Max_ge) auto
  then show ?thesis
    by (simp add: maxPad_def foldl_max_length)
qed

lemma padEnd_replicate: "padEnd s n = s @ replicate (n - length s) (CHR '' '')"
  by (simp add: padEnd_def)

text \<open>\<open>join\<close> puts the separator in front of every element but the first.\<close>

lemma join_concat: "join sep (x # xs) = x @ concat (map ((@) sep) xs)"
  by (induction xs arbitrary: x) simp_all

text \<open>
  Claim C6.  In text mode, for every non-empty row list, the output is the line of the
  first row followed, for every further row, by one newline and the line of that row.
  The line of a row is its label, padded on the right with spaces to the greatest label
  length of all rows, then \<open>" : "\<close> and the value; every padded label has exactly that
  greatest length.  The rows \<open>[["A","1"],["BB","22"]]\<close> give the lines \<open>"A  : 1"\<close> and
  \<open>"BB : 22"\<close>.
\<close>

theorem printTable_text_layout:
  assumes "rows \<noteq> []"
  shows "(let width = Max (set (map (length \<circ> fst) rows));
              line = (\<lambda>(l, r). l @ replicate (width - length l) (CHR '' '') @ '' : '' @ r)
          in printTable rows False
               = line (hd rows) @ concat (map (\<lambda>row. ''\<newline>'' @ line row) (tl rows))
             \<and> (\<forall>(l, r) \<in> set rows.
                   length (l @ replicate (width - length l) (CHR '' '')) = width))
         \<and> printTable [(''A'', ''1''), (''BB'', ''22'')] False = ''A  : 1\<newline>BB : 22''"
proof -
  let ?width = "Max (set (map (length \<circ> fst) rows))"
  let ?line = "\<lambda>(l, r). l @ replicate (?width - length l) (CHR '' '') @ '' : '' @ (r :: string)"
  obtain row rest where rows: "rows = row # rest"
    using assms by (cases rows) auto
  have "printTable rows False = join ''\<newline>'' (map ?line rows)"
    by (simp add: printTable_def padEnd_replicate maxPad_Max [OF assms])
  also have "\<dots> = ?line row @ concat (map ((@) ''\<newline>'') (map ?line rest))"
    unfolding rows list.map by (rule join_concat)
  also have "\<dots> = ?line (hd rows) @ concat (map (\<lambda>row. ''\<newline>'' @ ?line row) (tl rows))"
    by (simp add: rows comp_def)
  finally have out: "printTable rows False
      = ?line (hd rows) @ concat (map (\<lambda>row. ''\<newline>'' @ ?line row) (tl rows))" .
  have pad: "\<forall>(l, r) \<in> set rows.
      length (l @ replicate (?width - length l) (CHR '' '')) = ?width"
  proof (clarify)
    fix l r
    assume "(l, r) \<in> set rows"
    then have "length l \<le> ?width"
      using maxPad_ge [of l r rows] by (simp only: maxPad_Max [OF assms])
    then show "length (l @ replicate (?width - length l) (CHR '' '')) = ?width"
      by (simp only: length_append length_replicate le_add_diff_inverse)
  qed
  have ex: "printTable [(''A'', ''1''), (''BB'', ''22'')] False = ''A  : 1\<newline>BB : 22''"
    by (simp add: printTable_def padEnd_def maxPad_def)
  show ?thesis
    unfolding Let_def using out pad ex by (intro conjI)
qed

theorem printTable_text_layout_witness:
  "[(''A'', ''1''), (''BB'', ''22''), (''CCC'', ''333'')] \<noteq> ([] :: row list)
   \<and> Max (set (map (length \<circ> fst) [(''A'', ''1''), (''BB'', ''22''), (''CCC'', ''333'')])) = 3
   \<and> printTable [(''A'', ''1''), (''BB'', ''22''), (''CCC'', ''333'')] False
       = ''A   : 1\<newline>BB  : 22\<newline>CCC : 333''"
proof -
  have run: "printTable [(''A'', ''1''), (''BB'', ''22''), (''CCC'', ''333'')] False
       = ''A   : 1\<newline>BB  : 22\<newline>CCC : 333''"
    by (simp add: printTable_def padEnd_def maxPad_def)
  show ?thesis
    using printTable_text_layout [of "[(''A'', ''1''), (''BB'', ''22''), (''CCC'', ''333'')]"] run
    by (simp add: Let_def)
qed

section \<open>Slugified keys\<close>

lemma concat_runs: "concat (runs P xs) = xs"
  by (induction xs) (auto split: list.splits)

lemma runs_nonempty: "r \<in> set (runs P xs) \<Longrightarrow> r \<noteq> []"
  by (induction xs arbitrary: r) (auto split: list.splits if_splits)

lemma runs_uniform: "r \<in> set (runs P xs) \<Longrightarrow> y \<in> set r \<Longrightarrow> P y = P (hd r)"
proof (induction xs arbitrary: r y)
  case Nil
  then show ?case by simp
next
  case (Cons x xs)
  show ?case
  proof (cases "runs P xs")
    case Nil
    with Cons.prems show ?thesis by simp
  next
    case (Cons r' rs)
    have IH: "\<And>q z. q \<in> set (r' # rs) \<Longrightarrow> z \<in> set q \<Longrightarrow> P z = P (hd q)"
      using Cons.IH Cons by simp
    show ?thesis
    proof (cases "P x = P (hd r')")
      case True
      then have "r = x # r' \<or> r \<in> set rs"
        using Cons.prems(1) Cons by simp
      then show ?thesis
      proof
        assume r: "r = x # r'"
        then have "y = x \<or> y \<in> set r'"
          using Cons.prems(2) by simp
        then show ?thesis
          using IH [of r' y] True r by auto
      next
        assume "r \<in> set rs"
        then show ?thesis
          using IH [of r y] Cons.prems(2) by simp
      qed
    next
      case False
      then have "r = [x] \<or> r \<in> set (r' # rs)"
        using Cons.prems(1) Cons by simp
      then show ?thesis
      proof
        assume "r = [x]"
        then show ?thesis using Cons.prems(2) by simp
      next
        assume "r \<in> set (r' # rs)"
        then show ?thesis
          using IH [of r y] Cons.prems(2) by simp
      qed
    qed
  qed
qed

text \<open>Two neighbouring runs are of different classes: each run is maximal.\<close>

lemma runs_alternate: "distinct_adj (map (\<lambda>r. P (hd r)) (runs P xs))"
  by (induction xs) (auto split: list.splits)

lemma runs_eq_Nil [simp]: "runs P xs = [] \<longleftrightarrow> xs = []"
  by (cases xs) (auto split: list.splits)

lemma hd_hd_runs: "xs \<noteq> [] \<Longrightarrow> hd (hd (runs P xs)) = hd xs"
  by (cases xs) (auto split: list.splits)

lemma replace_ws_runs:
  "replace_ws s = concat (map (\<lambda>r. if isSpace (hd r) then ''-'' else r) (runs isSpace s))"
proof (induction s)
  case Nil
  then show ?case by simp
next
  case (Cons c cs)
  show ?case
  proof (cases cs)
    case Nil
    then show ?thesis by simp
  next
    case (Cons d ds)
    have hd: "hd (hd (runs isSpace cs)) = d"
      using hd_hd_runs [of cs isSpace] Cons by simp
    have ne: "runs isSpace cs \<noteq> []"
      using Cons by (simp only: runs_eq_Nil) simp
    from hd ne obtain r rs where r: "runs isSpace cs = r # rs" "hd r = d"
      by (cases "runs isSpace cs") auto
    show ?thesis
    proof (cases "isSpace c")
      case True
      then show ?thesis
        using Cons.IH r Cons by (cases "isSpace d") simp_all
    next
      case False
      then show ?thesis
        using Cons.IH r Cons by (cases "isSpace d") simp_all
    qed
  qed
qed

lemma slugify_refines: "slugify label = slugify_spec label"
  by (simp add: slugify_def slugify_spec_def replace_ws_runs)

text \<open>Lowercasing an upper case code unit adds 32 to it.\<close>

lemma isUpperCase_bit5:
  assumes "isUpperCase c"
  shows "\<not> digit5 c"
proof (cases c)
  case (Char b0 b1 b2 b3 b4 b5 b6 b7)
  with assms show ?thesis
    by (cases b5; cases b6; cases b7; cases b4; cases b3; cases b2; cases b1; cases b0)
      (simp_all add: isUpperCase_def)
qed

lemma toLowerCase_unit_code:
  "(of_char (toLowerCase_unit c) :: nat) = (if isUpperCase c then of_char c + 32 else of_char c)"
proof (cases "isUpperCase c")
  case True
  then have "\<not> digit5 c" by (rule isUpperCase_bit5)
  then have "(of_char (Char (digit0 c) (digit1 c) (digit2 c) (digit3 c) (digit4 c) True (digit6 c) (digit7 c)) :: nat)
      = of_char c + 32"
    by (cases c) simp
  with True show ?thesis
    by (simp add: toLowerCase_unit_def)
next
  case False
  then show ?thesis
    by (simp add: toLowerCase_unit_def)
qed

lemma not_upper_lower: "\<not> isUpperCase (toLowerCase_unit c)"
  by (cases c) (simp add: toLowerCase_unit_def isUpperCase_def Let_def)

lemma replace_ws_no_space: "c \<in> set (replace_ws s) \<Longrightarrow> \<not> isSpace c"
  by (induction s rule: replace_ws.induct) (auto simp: isSpace_def split: if_splits)

lemma set_replace_ws: "set (replace_ws s) \<subseteq> insert (CHR ''-'') (set s)"
  by (induction s rule: replace_ws.induct) (auto split: if_splits dest: set_dropWhileD)

lemma slugify_chars:
  assumes "c \<in> set (slugify label)"
  shows "\<not> isSpace c \<and> \<not> isUpperCase c"
proof
  show "\<not> isSpace c"
    using assms by (simp add: slugify_def replace_ws_no_space)
  have "c = CHR ''-'' \<or> c \<in> toLowerCase_unit ` set label"
    using assms set_replace_ws [of "toLowerCase label"] by (auto simp: slugify_def toLowerCase_def)
  then show "\<not> isUpperCase c"
  proof
    assume "c = CHR ''-''"
    then show ?thesis by (simp add: isUpperCase_def)
  next
    assume "c \<in> toLowerCase_unit ` set label"
    then show ?thesis by (auto simp: not_upper_lower)
  qed
qed

section \<open>The object of the JSON mode\<close>

lemma map_of_obj_set:
  "map_of (obj_set acc k v) = (if k = ''__proto__'' then map_of acc else (map_of acc)(k \<mapsto> v))"
  by (simp add: obj_set_def AList.update_conv')

lemma map_of_foldl_obj_set:
  "map_of (foldl (\<lambda>acc (name, v). obj_set acc (slugify name) v) acc rows) k
     = (if k = ''__proto__'' then map_of acc k
        else (map_of acc ++ map_of (rev (slugRows rows))) k)"
proof (induction rows arbitrary: acc)
  case Nil
  then show ?case by (simp add: slugRows_def)
next
  case (Cons r rows)
  obtain l v where r: "r = (l, v)" by (cases r)
  show ?case
    by (auto simp: r Cons.IH map_of_obj_set slugRows_def map_add_def split: option.splits)
qed

lemma map_of_toObject:
  "map_of (toObject rows) k
     = (if k = ''__proto__'' then None else map_of (rev (slugRows rows)) k)"
  by (simp add: toObject_def map_of_foldl_obj_set)

lemma distinct_obj_set:
  "distinct (map fst acc) \<Longrightarrow> distinct (map fst (obj_set acc k v))"
  by (simp add: obj_set_def AList.distinct_update)

lemma distinct_foldl_obj_set:
  "distinct (map fst acc)
   \<Longrightarrow> distinct (map fst (foldl (\<lambda>acc (name, v). obj_set acc (slugify name) v) acc rows))"
proof (induction rows arbitrary: acc)
  case Nil
  then show ?case by simp
next
  case (Cons r rows)
  obtain l v where r: "r = (l, v)" by (cases r)
  show ?case
    using Cons.IH [OF distinct_obj_set [OF Cons.prems]] by (simp add: r)
qed

lemma distinct_toObject: "distinct (map fst (toObject rows))"
  by (simp add: toObject_def distinct_foldl_obj_set)

lemma keys_toObject:
  "fst ` set (toObject rows) = slugify ` fst ` set rows - {''__proto__''}"
proof -
  have "dom (map_of (toObject rows)) = dom (map_of (rev (slugRows rows))) - {''__proto__''}"
    by (auto simp: map_of_toObject split: if_splits)
  moreover have "fst ` set (slugRows rows) = slugify ` fst ` set rows"
    by (force simp: slugRows_def)
  ultimately show ?thesis
    by (simp add: dom_map_of_conv_image_fst)
qed

lemma length_toObject:
  "length (toObject rows) = card (slugify ` fst ` set rows - {''__proto__''})"
proof -
  have "length (toObject rows) = length (map fst (toObject rows))"
    by simp
  also have "\<dots> = card (set (map fst (toObject rows)))"
    using distinct_toObject [of rows] by (simp only: distinct_card)
  also have "\<dots> = card (slugify ` fst ` set rows - {''__proto__''})"
    using keys_toObject [of rows] by simp
  finally show ?thesis .
qed

lemma map_of_rev_last_key:
  assumes "j < length ps" "fst (ps ! j) = k" "k \<notin> fst ` set (drop (Suc j) ps)"
  shows "map_of (rev ps) k = Some (snd (ps ! j))"
proof -
  have ps: "ps = take j ps @ ps ! j # drop (Suc j) ps"
    using assms(1) by (rule id_take_nth_drop)
  have none: "map_of (rev (drop (Suc j) ps)) k = None"
    using assms(3) by (simp add: map_of_eq_None_iff)
  have "rev ps = rev (drop (Suc j) ps) @ ps ! j # rev (take j ps)"
    by (subst ps) simp
  then have "map_of (rev ps) k = map_of (rev (drop (Suc j) ps) @ ps ! j # rev (take j ps)) k"
    by simp
  also have "\<dots> = Some (snd (ps ! j))"
    using none assms(2) by (cases "ps ! j") (auto simp: map_add_def)
  finally show ?thesis .
qed

lemma set_ownEntries: "set (ownEntries obj) = set obj"
  by (auto simp: ownEntries_def)

lemma distinct_ownEntries:
  assumes "distinct (map fst obj)"
  shows "distinct (map fst (ownEntries obj))"
proof -
  have d: "distinct obj" and inj: "inj_on fst (set obj)"
    using assms by (simp_all add: distinct_map)
  have "distinct (ownEntries obj)"
    using d by (auto simp: ownEntries_def)
  moreover have "inj_on fst (set (ownEntries obj))"
    using inj by (simp add: set_ownEntries)
  ultimately show ?thesis
    by (simp add: distinct_map)
qed

lemma ownEntries_eq_Nil: "ownEntries obj = [] \<longleftrightarrow> obj = []"
  using set_ownEntries [of obj] by (metis set_empty)

lemma join_prefix:
  "xs \<noteq> [] \<Longrightarrow> gap @ join (sep @ gap) xs = join sep (map ((@) gap) xs)"
  by (induction sep xs rule: join.induct) simp_all

lemma newline_neq_hexDigit: "CHR ''\<newline>'' \<noteq> hexDigit n"
proof -
  have "hexDigit n \<in> set ''0123456789abcdef''"
    unfolding hexDigit_def by (rule nth_mem) simp
  then show ?thesis by auto
qed

lemma newline_notin_quoteUnit: "CHR ''\<newline>'' \<notin> set (quoteUnit c)"
proof (cases "of_char c = (10::nat)")
  case True
  then show ?thesis
    by (simp add: quoteUnit_def)
next
  case False
  then have "CHR ''\<newline>'' \<noteq> c"
    by auto
  then show ?thesis
    by (simp add: quoteUnit_def Let_def newline_neq_hexDigit)
qed

text \<open>A quoted string holds no line break, so every member is one line of the output.\<close>

lemma newline_notin_quoteJSONString: "CHR ''\<newline>'' \<notin> set (quoteJSONString s)"
  using newline_notin_quoteUnit by (auto simp: quoteJSONString_def)

lemma printTable_json:
  "printTable rows True =
     (if toObject rows = [] then ''{}''
      else ''{\<newline>''
           @ join '',\<newline>''
               (map (\<lambda>(k, v). ''  '' @ quoteJSONString k @ '': '' @ quoteJSONString v)
                  (ownEntries (toObject rows)))
           @ ''\<newline>}'')"
proof (cases "toObject rows = []")
  case True
  then show ?thesis
    by (simp add: printTable_def JSON_stringify_def ownEntries_def)
next
  case False
  then have ne: "map memberJSON (ownEntries (toObject rows)) \<noteq> []"
    by (simp add: ownEntries_eq_Nil)
  have step1: "printTable rows True
      = ''{'' @ ''\<newline>''
        @ (''  '' @ join ('','' @ ''\<newline>'' @ ''  '') (map memberJSON (ownEntries (toObject rows))))
        @ ''\<newline>'' @ ''}''"
    using ne by (simp add: printTable_def JSON_stringify_def)
  have "''  '' @ join ('','' @ ''\<newline>'' @ ''  '') (map memberJSON (ownEntries (toObject rows)))
          = join '',\<newline>'' (map ((@) ''  '') (map memberJSON (ownEntries (toObject rows))))"
    using join_prefix [OF ne, of "''  ''" "'',\<newline>''"] by simp
  also have "map ((@) ''  '') (map memberJSON (ownEntries (toObject rows)))
          = map (\<lambda>(k, v). ''  '' @ quoteJSONString k @ '': '' @ quoteJSONString v)
              (ownEntries (toObject rows))"
    by (simp add: memberJSON_def case_prod_unfold)
  finally have step2:
    "''  '' @ join ('','' @ ''\<newline>'' @ ''  '') (map memberJSON (ownEntries (toObject rows)))
       = join '',\<newline>''
           (map (\<lambda>(k, v). ''  '' @ quoteJSONString k @ '': '' @ quoteJSONString v)
              (ownEntries (toObject rows)))" .
  show ?thesis
    unfolding step1 step2 using False by simp
qed

text \<open>A code unit is the character with its code.\<close>

lemma of_char_eq_code:
  "((of_char c :: nat) = 8) = (c = CHR 0x08)"
  "((of_char c :: nat) = 9) = (c = CHR 0x09)"
  "((of_char c :: nat) = 10) = (c = CHR 0x0A)"
  "((of_char c :: nat) = 12) = (c = CHR 0x0C)"
  "((of_char c :: nat) = 13) = (c = CHR 0x0D)"
  "((of_char c :: nat) = 34) = (c = CHR 0x22)"
  "((of_char c :: nat) = 92) = (c = CHR 0x5C)"
  using of_char_eq_iff [of c "CHR 0x08", where ?'a = nat]
    of_char_eq_iff [of c "CHR 0x09", where ?'a = nat]
    of_char_eq_iff [of c "CHR 0x0A", where ?'a = nat]
    of_char_eq_iff [of c "CHR 0x0C", where ?'a = nat]
    of_char_eq_iff [of c "CHR 0x0D", where ?'a = nat]
    of_char_eq_iff [of c "CHR 0x22", where ?'a = nat]
    of_char_eq_iff [of c "CHR 0x5C", where ?'a = nat]
  by simp_all

text \<open>The escape of one code unit, by the code unit alone.\<close>

lemma quoteUnit_explicit:
  "quoteUnit c =
     (if c = CHR 0x08 then [CHR 0x5C, CHR ''b'']
      else if c = CHR 0x09 then [CHR 0x5C, CHR ''t'']
      else if c = CHR 0x0A then [CHR 0x5C, CHR ''n'']
      else if c = CHR 0x0C then [CHR 0x5C, CHR ''f'']
      else if c = CHR 0x0D then [CHR 0x5C, CHR ''r'']
      else if c = CHR 0x22 then [CHR 0x5C, CHR 0x22]
      else if c = CHR 0x5C then [CHR 0x5C, CHR 0x5C]
      else if (of_char c :: nat) < 32
        then [CHR 0x5C, CHR ''u'', CHR ''0'', CHR ''0'',
              ''0123456789abcdef'' ! (of_char c div 16), ''0123456789abcdef'' ! (of_char c mod 16)]
      else [c])"
proof -
  have "(of_char c :: nat) < 32 \<Longrightarrow> (of_char c :: nat) div 16 mod 16 = of_char c div 16"
    by simp
  then show ?thesis
    unfolding quoteUnit_def Let_def hexDigit_def of_char_eq_code by simp
qed

text \<open>
  Claim C5.  In JSON mode the keys of the output object are the slugified labels of the
  rows (but for \<open>__proto__\<close>, which makes no property), each with the value of the last
  row of that slug.  The slug of a label is the label lowercased with every maximal run
  of white space replaced by one hyphen; it holds no white space and no upper case
  letter; \<open>"Query Engine (Node-API)"\<close> gives \<open>"query-engine-(node-api)"\<close>.  The object is
  printed as \<open>{}\<close> when it is empty, and otherwise with every member once, on a line of
  its own behind two spaces, as the quoted key, a colon, a space and the quoted value,
  the members separated by a comma, between \<open>{\<close> and \<open>}\<close> on lines of their own.
\<close>

theorem json_keys_slugified:
  "slugify label = slugify_spec label
   \<and> (\<forall>c \<in> set (slugify label). \<not> isSpace c \<and> \<not> isUpperCase c)
   \<and> slugify ''Query Engine (Node-API)'' = ''query-engine-(node-api)''
   \<and> fst ` set (toObject rows) = slugify ` fst ` set rows - {''__proto__''}
   \<and> set (ownEntries (toObject rows)) = set (toObject rows)
   \<and> map_of (toObject rows) key
       = (if key = ''__proto__'' then None
          else map_of (rev (map (\<lambda>(name, v). (slugify name, v)) rows)) key)
   \<and> distinct (map fst (ownEntries (toObject rows)))
   \<and> (let escape = (\<lambda>c.
              if c = CHR 0x08 then [CHR 0x5C, CHR ''b'']
              else if c = CHR 0x09 then [CHR 0x5C, CHR ''t'']
              else if c = CHR 0x0A then [CHR 0x5C, CHR ''n'']
              else if c = CHR 0x0C then [CHR 0x5C, CHR ''f'']
              else if c = CHR 0x0D then [CHR 0x5C, CHR ''r'']
              else if c = CHR 0x22 then [CHR 0x5C, CHR 0x22]
              else if c = CHR 0x5C then [CHR 0x5C, CHR 0x5C]
              else if (of_char c :: nat) < 32
                then [CHR 0x5C, CHR ''u'', CHR ''0'', CHR ''0'',
                      ''0123456789abcdef'' ! (of_char c div 16),
                      ''0123456789abcdef'' ! (of_char c mod 16)]
              else [c]);
            quote = (\<lambda>s. [CHR 0x22] @ concat (map escape s) @ [CHR 0x22]);
            member = (\<lambda>(k, v). ''  '' @ quote k @ '': '' @ quote v);
            members = ownEntries (toObject rows)
        in printTable rows True =
             (if members = [] then ''{}''
              else ''{\<newline>'' @ member (hd members)
                   @ concat (map (\<lambda>m. '',\<newline>'' @ member m) (tl members))
                   @ ''\<newline>}''))"
proof (intro conjI)
  show "slugify label = slugify_spec label"
    by (rule slugify_refines)
  show "\<forall>c \<in> set (slugify label). \<not> isSpace c \<and> \<not> isUpperCase c"
    using slugify_chars by blast
  show "slugify ''Query Engine (Node-API)'' = ''query-engine-(node-api)''"
    by (simp add: slugify_def toLowerCase_def toLowerCase_unit_def isUpperCase_def isSpace_def)
  show "fst ` set (toObject rows) = slugify ` fst ` set rows - {''__proto__''}"
    by (rule keys_toObject)
  show "set (ownEntries (toObject rows)) = set (toObject rows)"
    by (rule set_ownEntries)
  show "map_of (toObject rows) key
       = (if key = ''__proto__'' then None
          else map_of (rev (map (\<lambda>(name, v). (slugify name, v)) rows)) key)"
    using map_of_toObject [of rows key] by (simp add: slugRows_def)
  show "distinct (map fst (ownEntries (toObject rows)))"
    by (rule distinct_ownEntries) (rule distinct_toObject)
  let ?escape = "\<lambda>c.
              if c = CHR 0x08 then [CHR 0x5C, CHR ''b'']
              else if c = CHR 0x09 then [CHR 0x5C, CHR ''t'']
              else if c = CHR 0x0A then [CHR 0x5C, CHR ''n'']
              else if c = CHR 0x0C then [CHR 0x5C, CHR ''f'']
              else if c = CHR 0x0D then [CHR 0x5C, CHR ''r'']
              else if c = CHR 0x22 then [CHR 0x5C, CHR 0x22]
              else if c = CHR 0x5C then [CHR 0x5C, CHR 0x5C]
              else if (of_char c :: nat) < 32
                then [CHR 0x5C, CHR ''u'', CHR ''0'', CHR ''0'',
                      ''0123456789abcdef'' ! (of_char c div 16),
                      ''0123456789abcdef'' ! (of_char c mod 16)]
              else [c]"
  let ?quote = "\<lambda>s. [CHR 0x22] @ concat (map ?escape s) @ [CHR 0x22]"
  let ?member = "\<lambda>(k, v). ''  '' @ ?quote k @ '': '' @ ?quote v"
  let ?members = "ownEntries (toObject rows)"
  have esc: "quoteUnit = ?escape"
    by (rule ext) (rule quoteUnit_explicit)
  have member: "(\<lambda>(k, v). ''  '' @ quoteJSONString k @ '': '' @ quoteJSONString v) = ?member"
    unfolding quoteJSONString_def esc ..
  have "printTable rows True =
             (if ?members = [] then ''{}''
              else ''{\<newline>'' @ ?member (hd ?members)
                   @ concat (map (\<lambda>m. '',\<newline>'' @ ?member m) (tl ?members))
                   @ ''\<newline>}'')"
  proof (cases "?members")
    case Nil
    then show ?thesis
      using printTable_json [of rows] by (simp add: ownEntries_eq_Nil)
  next
    case (Cons m ms)
    then have ne: "toObject rows \<noteq> []"
      using ownEntries_eq_Nil [of "toObject rows"] by auto
    have "printTable rows True = ''{\<newline>'' @ join '',\<newline>'' (map ?member ?members) @ ''\<newline>}''"
      using printTable_json [of rows] ne unfolding member by simp
    also have "join '',\<newline>'' (map ?member ?members)
        = ?member m @ concat (map ((@) '',\<newline>'') (map ?member ms))"
      unfolding Cons list.map by (rule join_concat)
    also have "\<dots> = ?member (hd ?members) @ concat (map (\<lambda>m. '',\<newline>'' @ ?member m) (tl ?members))"
      by (simp add: Cons comp_def)
    finally show ?thesis
      using Cons by simp
  qed
  then show "let escape = ?escape; quote = (\<lambda>s. [CHR 0x22] @ concat (map escape s) @ [CHR 0x22]);
            member = (\<lambda>(k, v). ''  '' @ quote k @ '': '' @ quote v);
            members = ownEntries (toObject rows)
        in printTable rows True =
             (if members = [] then ''{}''
              else ''{\<newline>'' @ member (hd members)
                   @ concat (map (\<lambda>m. '',\<newline>'' @ member m) (tl members))
                   @ ''\<newline>}'')"
    unfolding Let_def .
qed

theorem json_keys_slugified_witness:
  "slugify ''Current  Platform'' = ''current-platform''
   \<and> slugify_spec ''Current  Platform'' = ''current-platform''
   \<and> toObject [(''Query Engine (Node-API)'', ''1.0''), (''Current  Platform'', ''debian''),
               (''Studio'', [CHR ''a'', CHR 0x22, CHR 0x5C, CHR ''b''])]
       = [(''query-engine-(node-api)'', ''1.0''), (''current-platform'', ''debian''),
          (''studio'', [CHR ''a'', CHR 0x22, CHR 0x5C, CHR ''b''])]
   \<and> printTable [(''Query Engine (Node-API)'', ''1.0''), (''Current  Platform'', ''debian''),
                 (''Studio'', [CHR ''a'', CHR 0x22, CHR 0x5C, CHR ''b''])] True
       = ''{\<newline>  '' @ [CHR 0x22] @ ''query-engine-(node-api)'' @ [CHR 0x22] @ '': ''
           @ [CHR 0x22] @ ''1.0'' @ [CHR 0x22]
         @ '',\<newline>  '' @ [CHR 0x22] @ ''current-platform'' @ [CHR 0x22] @ '': ''
           @ [CHR 0x22] @ ''debian'' @ [CHR 0x22]
         @ '',\<newline>  '' @ [CHR 0x22] @ ''studio'' @ [CHR 0x22] @ '': ''
           @ [CHR 0x22] @ [CHR ''a'', CHR 0x5C, CHR 0x22, CHR 0x5C, CHR 0x5C, CHR ''b''] @ [CHR 0x22]
         @ ''\<newline>}''"
proof -
  have slug: "slugify ''Current  Platform'' = ''current-platform''"
    "slugify ''Query Engine (Node-API)'' = ''query-engine-(node-api)''"
    "slugify ''Studio'' = ''studio''"
    by (simp_all add: slugify_def toLowerCase_def toLowerCase_unit_def isUpperCase_def isSpace_def)
  have obj: "toObject [(''Query Engine (Node-API)'', ''1.0''), (''Current  Platform'', ''debian''),
               (''Studio'', [CHR ''a'', CHR 0x22, CHR 0x5C, CHR ''b''])]
       = [(''query-engine-(node-api)'', ''1.0''), (''current-platform'', ''debian''),
          (''studio'', [CHR ''a'', CHR 0x22, CHR 0x5C, CHR ''b''])]"
    by (simp add: toObject_def obj_set_def slug)
  have own: "ownEntries [(''query-engine-(node-api)'', ''1.0''), (''current-platform'', ''debian''),
          (''studio'', [CHR ''a'', CHR 0x22, CHR 0x5C, CHR ''b''])]
       = [(''query-engine-(node-api)'', ''1.0''), (''current-platform'', ''debian''),
          (''studio'', [CHR ''a'', CHR 0x22, CHR 0x5C, CHR ''b''])]"
    by (simp add: ownEntries_def isArrayIndex_def isDigit_def)
  have run: "printTable [(''Query Engine (Node-API)'', ''1.0''), (''Current  Platform'', ''debian''),
                 (''Studio'', [CHR ''a'', CHR 0x22, CHR 0x5C, CHR ''b''])] True
       = ''{\<newline>  '' @ [CHR 0x22] @ ''query-engine-(node-api)'' @ [CHR 0x22] @ '': ''
           @ [CHR 0x22] @ ''1.0'' @ [CHR 0x22]
         @ '',\<newline>  '' @ [CHR 0x22] @ ''current-platform'' @ [CHR 0x22] @ '': ''
           @ [CHR 0x22] @ ''debian'' @ [CHR 0x22]
         @ '',\<newline>  '' @ [CHR 0x22] @ ''studio'' @ [CHR 0x22] @ '': ''
           @ [CHR 0x22] @ [CHR ''a'', CHR 0x5C, CHR 0x22, CHR 0x5C, CHR 0x5C, CHR ''b''] @ [CHR 0x22]
         @ ''\<newline>}''"
    by (simp add: printTable_def JSON_stringify_def memberJSON_def quoteJSONString_def
        quoteUnit_def obj own)
  show ?thesis
    using json_keys_slugified [of "''Current  Platform''"
        "[(''Query Engine (Node-API)'', ''1.0''), (''Current  Platform'', ''debian''),
          (''Studio'', [CHR ''a'', CHR 0x22, CHR 0x5C, CHR ''b''])]" "''studio''"] run
    by (simp add: slug obj own Let_def)
qed

text \<open>
  Claim C9, as amended.  In JSON mode, when two rows have labels with the same slug, the
  slug is not \<open>__proto__\<close> and no later row has it, the output object holds the value of
  the later row under that key and no other value, and it has fewer members than there
  are rows.
\<close>

theorem json_later_row_wins:
  assumes "i < j" "j < length rows"
    and "slugify (fst (rows ! i)) = slugify (fst (rows ! j))"
    and "slugify (fst (rows ! j)) \<noteq> ''__proto__''"
    and "slugify (fst (rows ! j)) \<notin> slugify ` fst ` set (drop (Suc j) rows)"
  shows "map_of (toObject rows) (slugify (fst (rows ! j))) = Some (snd (rows ! j))
         \<and> {v. (slugify (fst (rows ! j)), v) \<in> set (ownEntries (toObject rows))} = {snd (rows ! j)}
         \<and> length (toObject rows) < length rows"
proof (intro conjI)
  let ?k = "slugify (fst (rows ! j))"
  have len: "j < length (slugRows rows)"
    using assms(2) by (simp add: slugRows_def)
  have nth: "slugRows rows ! j = (?k, snd (rows ! j))"
    using assms(2) by (simp add: slugRows_def case_prod_unfold)
  have "fst ` set (drop (Suc j) (slugRows rows)) = slugify ` fst ` set (drop (Suc j) rows)"
    by (force simp: slugRows_def drop_map)
  then have later: "?k \<notin> fst ` set (drop (Suc j) (slugRows rows))"
    using assms(5) by simp
  have "map_of (rev (slugRows rows)) ?k = Some (snd (slugRows rows ! j))"
    using len later by (intro map_of_rev_last_key) (simp_all add: nth)
  then show present: "map_of (toObject rows) ?k = Some (snd (rows ! j))"
    using assms(4) by (simp add: map_of_toObject nth)
  show "{v. (?k, v) \<in> set (ownEntries (toObject rows))} = {snd (rows ! j)}"
  proof -
    have "(?k, v) \<in> set (toObject rows) \<longleftrightarrow> v = snd (rows ! j)" for v
      using present map_of_eq_Some_iff [OF distinct_toObject, of rows ?k v]
      by (metis option.inject)
    then show ?thesis
      by (auto simp: set_ownEntries)
  qed
  have "i < length rows" "i \<noteq> j"
    using assms(1,2) by simp_all
  then have "\<not> distinct (map (slugify \<circ> fst) rows)"
    using assms(2,3) by (simp add: distinct_conv_nth) blast
  then have "card (set (map (slugify \<circ> fst) rows)) \<noteq> length (map (slugify \<circ> fst) rows)"
    using card_distinct by blast
  then have "card (set (map (slugify \<circ> fst) rows)) < length rows"
    using card_length [of "map (slugify \<circ> fst) rows"] by simp
  moreover have "card (slugify ` fst ` set rows - {''__proto__''}) \<le> card (slugify ` fst ` set rows)"
    by (intro card_mono) auto
  ultimately show "length (toObject rows) < length rows"
    by (simp add: length_toObject image_image)
qed

theorem json_later_row_wins_witness:
  "map_of (toObject [(''Current Platform'', ''a''), (''@prisma/client'', ''c''),
                     (''current   platform'', ''b'')]) ''current-platform'' = Some ''b''
   \<and> toObject [(''Current Platform'', ''a''), (''@prisma/client'', ''c''),
               (''current   platform'', ''b'')]
       = [(''current-platform'', ''b''), (''@prisma/client'', ''c'')]
   \<and> length (toObject [(''Current Platform'', ''a''), (''@prisma/client'', ''c''),
                       (''current   platform'', ''b'')]) < 3"
proof -
  have slug: "slugify ''Current Platform'' = ''current-platform''"
    "slugify ''current   platform'' = ''current-platform''"
    "slugify ''@prisma/client'' = ''@prisma/client''"
    by (simp_all add: slugify_def toLowerCase_def toLowerCase_unit_def isUpperCase_def isSpace_def)
  have obj: "toObject [(''Current Platform'', ''a''), (''@prisma/client'', ''c''),
               (''current   platform'', ''b'')]
       = [(''current-platform'', ''b''), (''@prisma/client'', ''c'')]"
    by (simp add: toObject_def obj_set_def slug)
  show ?thesis
    using json_later_row_wins [of 0 2 "[(''Current Platform'', ''a''), (''@prisma/client'', ''c''),
               (''current   platform'', ''b'')]"]
    by (simp add: slug obj)
qed

text \<open>
  The claim as it stands fails for the key \<open>__proto__\<close>: two rows have that slug, and
  the object holds neither value.
\<close>

theorem json_later_row_wins_counterexample:
  "slugify (fst (''__proto__'', ''1'')) = slugify (fst (''__proto__'', ''2''))
   \<and> map_of (toObject [(''__proto__'', ''1''), (''__proto__'', ''2'')]) (slugify ''__proto__'') = None
   \<and> printTable [(''__proto__'', ''1''), (''__proto__'', ''2'')] True = ''{}''"
proof -
  have slug: "slugify ''__proto__'' = ''__proto__''"
    by (simp add: slugify_def toLowerCase_def toLowerCase_unit_def isUpperCase_def isSpace_def)
  have obj: "toObject [(''__proto__'', ''1''), (''__proto__'', ''2'')] = []"
    by (simp add: toObject_def obj_set_def slug)
  show ?thesis
    by (simp add: slug obj printTable_def JSON_stringify_def ownEntries_def)
qed

section \<open>Engine resolution\<close>

lemma await_Inr [simp]: "await (Inr x) k = k x"
  by (simp add: await_def)

lemma await_Inl [simp]: "await (Inl e) k = Inl e"
  by (simp add: await_def)

lemma await_eq_Inr:
  "await p k = Inr y \<longleftrightarrow> (\<exists>x. p = Inr x \<and> k x = Inr y)"
  by (cases p) simp_all

text \<open>
  Claim C1, as amended.  For every engine kind, when the override variable of the kind is
  set and the path it names exists on disk: if the version probe of that path succeeds,
  \<open>getEngineInfo\<close> returns the \<open>EngineInfo\<close> with that path, the probed version and the
  name of the variable; if the probe fails, \<open>getEngineInfo\<close> fails with its error.
\<close>

theorem getEngineInfo_override:
  assumes "process_env w (engineEnvVarMap w engineType) = Some p"
    and "existsSync w p"
  shows "(\<forall>v. getVersion w p engineType = Inr v \<longrightarrow>
            getEngineInfo w engineType
              = Inr \<lparr>path = p, version = v, fromEnvVar = Some (engineEnvVarMap w engineType)\<rparr>)
         \<and> (\<forall>e. getVersion w p engineType = Inl e \<longrightarrow> getEngineInfo w engineType = Inl e)"
proof -
  have "p \<noteq> []"
    using assms(2) by (simp add: existsSync_def)
  then have "getEngineInfo w engineType
      = await (getVersion w p engineType) (\<lambda>v.
          Inr \<lparr>path = p, version = v, fromEnvVar = Some (engineEnvVarMap w engineType)\<rparr>)"
    using assms by (simp add: getEngineInfo_def)
  then show ?thesis
    by simp
qed

theorem getEngineInfo_override_witness:
  "process_env demo_world (engineEnvVarMap demo_world libqueryEngine) = Some ''/cli/custom/libquery.node''
   \<and> existsSync demo_world ''/cli/custom/libquery.node''
   \<and> getVersion demo_world ''/cli/custom/libquery.node'' libqueryEngine = Inr ''1c05d2f''
   \<and> getEngineInfo demo_world libqueryEngine
       = Inr \<lparr>path = ''/cli/custom/libquery.node'', version = ''1c05d2f'',
              fromEnvVar = Some ''PRISMA_QUERY_ENGINE_LIBRARY''\<rparr>"
  using getEngineInfo_override [of demo_world libqueryEngine "''/cli/custom/libquery.node''"]
  by (simp add: demo_world_def demo_engineEnvVarMap_def existsSync_def)

text \<open>
  The claim as it stands fails where the probe fails: the variable is set, the file
  exists, and \<open>getEngineInfo\<close> returns no \<open>EngineInfo\<close>.
\<close>

theorem getEngineInfo_override_counterexample:
  "process_env broken_world (engineEnvVarMap broken_world libqueryEngine) = Some ''/cli/custom/libquery.node''
   \<and> existsSync broken_world ''/cli/custom/libquery.node''
   \<and> getEngineInfo broken_world libqueryEngine = Inl (Error ''EACCES'')"
  by (simp add: broken_world_def demo_world_def demo_engineEnvVarMap_def existsSync_def
      getEngineInfo_def)

text \<open>
  Claim C2, as amended.  For every engine kind, when the override variable of the kind is
  unset, or set to a path that does not exist on disk: if the default resolution and the
  version probe of its path succeed, \<open>getEngineInfo\<close> returns the \<open>EngineInfo\<close> with the
  resolved path, the probed version and no \<open>fromEnvVar\<close>; if either fails,
  \<open>getEngineInfo\<close> fails with its error.
\<close>

theorem getEngineInfo_default:
  assumes "process_env w (engineEnvVarMap w engineType) = None
           \<or> (\<exists>p. process_env w (engineEnvVarMap w engineType) = Some p \<and> \<not> existsSync w p)"
  shows "(\<forall>enginePath v.
            resolveEnginePath w engineType = Inr enginePath
            \<and> getVersion w enginePath engineType = Inr v \<longrightarrow>
            getEngineInfo w engineType = Inr \<lparr>path = enginePath, version = v, fromEnvVar = None\<rparr>)
         \<and> (\<forall>e. resolveEnginePath w engineType = Inl e \<longrightarrow> getEngineInfo w engineType = Inl e)
         \<and> (\<forall>enginePath e.
              resolveEnginePath w engineType = Inr enginePath
              \<and> getVersion w enginePath engineType = Inl e \<longrightarrow>
              getEngineInfo w engineType = Inl e)"
proof -
  have "getEngineInfo w engineType
      = await (resolveEnginePath w engineType) (\<lambda>enginePath.
        await (getVersion w enginePath engineType) (\<lambda>v.
        Inr \<lparr>path = enginePath, version = v, fromEnvVar = None\<rparr>))"
    using assms by (auto simp: getEngineInfo_def)
  then show ?thesis
    by simp
qed

theorem getEngineInfo_default_witness:
  "process_env demo_world (engineEnvVarMap demo_world migrationEngine) = None
   \<and> getEngineInfo demo_world migrationEngine
       = Inr \<lparr>path = ''/cli/engines/migration'', version = ''1c05d2f'', fromEnvVar = None\<rparr>
   \<and> process_env demo_world (engineEnvVarMap demo_world prismaFmt) = Some ''/missing/fmt''
   \<and> \<not> existsSync demo_world ''/missing/fmt''
   \<and> getEngineInfo demo_world prismaFmt
       = Inr \<lparr>path = ''/cli/engines/fmt'', version = ''1c05d2f'', fromEnvVar = None\<rparr>"
  using getEngineInfo_default [of demo_world migrationEngine]
    getEngineInfo_default [of demo_world prismaFmt]
  by (simp add: demo_world_def demo_engineEnvVarMap_def demo_resolveEnginePath_def existsSync_def)

text \<open>
  The claim as it stands fails where the probe fails: the variable is unset, and
  \<open>getEngineInfo\<close> returns no \<open>EngineInfo\<close>.
\<close>

theorem getEngineInfo_default_counterexample:
  "process_env broken_world (engineEnvVarMap broken_world migrationEngine) = None
   \<and> resolveEnginePath broken_world migrationEngine = Inr ''/cli/engines/migration''
   \<and> getEngineInfo broken_world migrationEngine = Inl (Error ''EACCES'')"
  by (simp add: broken_world_def demo_world_def demo_engineEnvVarMap_def
      demo_resolveEnginePath_def getEngineInfo_def)

section \<open>Feature flags\<close>

lemma getFeatureFlags_cases:
  "getFeatureFlags w schemaPath =
     Inr (if \<not> truthy schemaPath then []
          else case getSchema w of
                 Inl e \<Rightarrow> []
               | Inr datamodel \<Rightarrow>
                   (case getConfig w datamodel of
                      Inl e \<Rightarrow> []
                    | Inr config \<Rightarrow>
                        (case find (\<lambda>g. previewFeatures g \<noteq> []) (generators config) of
                           None \<Rightarrow> []
                         | Some generator \<Rightarrow> previewFeatures generator)))"
  by (simp add: getFeatureFlags_def await_def split: sum.splits option.splits)

lemma find_first:
  "\<forall>h \<in> set pre. \<not> P h \<Longrightarrow> P g \<Longrightarrow> find P (pre @ g # post) = Some g"
  by (induction pre) simp_all

text \<open>
  Claim C3.  \<open>getFeatureFlags\<close> never raises: it always returns a list.  Without a
  schema path the list is empty; when \<open>getSchema\<close> fails, or \<open>getConfig\<close> fails, the
  error is caught and the list is empty, as it is when no generator has a preview
  feature.
\<close>

theorem getFeatureFlags_never_raises:
  "(\<exists>flags. getFeatureFlags w schemaPath = Inr flags)
   \<and> getFeatureFlags w None = Inr []
   \<and> (\<forall>e. getSchema w = Inl e \<longrightarrow> getFeatureFlags w schemaPath = Inr [])
   \<and> (\<forall>datamodel e. getSchema w = Inr datamodel \<and> getConfig w datamodel = Inl e \<longrightarrow>
         getFeatureFlags w schemaPath = Inr [])
   \<and> (\<forall>datamodel config.
         getSchema w = Inr datamodel \<and> getConfig w datamodel = Inr config
         \<and> (\<forall>g \<in> set (generators config). previewFeatures g = []) \<longrightarrow>
         getFeatureFlags w schemaPath = Inr [])"
proof (intro conjI allI impI)
  show "\<exists>flags. getFeatureFlags w schemaPath = Inr flags"
    by (subst getFeatureFlags_cases) blast
  show "getFeatureFlags w None = Inr []"
    by (simp add: getFeatureFlags_cases truthy_def)
  show "getFeatureFlags w schemaPath = Inr []" if "getSchema w = Inl e" for e
    using that by (simp add: getFeatureFlags_cases)
  show "getFeatureFlags w schemaPath = Inr []"
    if "getSchema w = Inr datamodel \<and> getConfig w datamodel = Inl e" for datamodel e
    using that by (simp add: getFeatureFlags_cases)
  show "getFeatureFlags w schemaPath = Inr []"
    if h: "getSchema w = Inr datamodel \<and> getConfig w datamodel = Inr config
         \<and> (\<forall>g \<in> set (generators config). previewFeatures g = [])" for datamodel config
  proof -
    have "find (\<lambda>g. previewFeatures g \<noteq> []) (generators config) = None"
      using h by (simp add: find_None_iff)
    then show ?thesis
      using h by (simp add: getFeatureFlags_cases)
  qed
qed

theorem getFeatureFlags_never_raises_witness:
  "getSchema invalid_schema_world = Inl (Error ''invalid schema'')
   \<and> getFeatureFlags invalid_schema_world (Some ''/cli/schema.prisma'') = Inr []
   \<and> getFeatureFlags invalid_schema_world None = Inr []"
  using getFeatureFlags_never_raises [of invalid_schema_world "Some ''/cli/schema.prisma''"]
  by (simp add: invalid_schema_world_def demo_world_def)

section \<open>The report\<close>

text \<open>\<open>split\<close> never returns the empty array, and joining its pieces gives the string back.\<close>

lemma split_at_nonempty: "split_at sep s \<noteq> []"
  by (induction s) (auto split: list.splits)

lemma join_split_at: "join [sep] (split_at sep s) = s"
proof (induction s)
  case Nil
  then show ?case by simp
next
  case (Cons c cs)
  show ?case
  proof (cases "split_at sep cs")
    case Nil
    then show ?thesis using split_at_nonempty [of sep cs] by simp
  next
    case (Cons p ps)
    then show ?thesis
      using Cons.IH by (cases ps) auto
  qed
qed

lemma engines_hash:
  "last (split_at (CHR ''.'') packageJson_engines) = ''1c05d2fd02981d04d5367319e82f44e1c44ec0b7''"
  by (simp add: packageJson_engines_def)

lemma constructEngineInfoString_eq: "constructEngineInfoString w info = engineRowValue w info"
  by (simp add: constructEngineInfoString_def engineRowValue_def split: option.splits)

lemma versionInfoRows_Inr:
  assumes "versionInfoRows w = Inr rows"
  shows "\<exists>prismaClientVersion platform q m i f schemaPath featureFlags.
      getInstalledPrismaClientVersion w = Inr prismaClientVersion
      \<and> getPlatform w = Inr platform
      \<and> getEngineInfo w (getCliQueryEngineType w) = Inr q
      \<and> getEngineInfo w migrationEngine = Inr m
      \<and> getEngineInfo w introspectionEngine = Inr i
      \<and> getEngineInfo w prismaFmt = Inr f
      \<and> getSchemaPath w = Inr schemaPath
      \<and> getFeatureFlags w schemaPath = Inr featureFlags
      \<and> rows =
          [(''prisma'', ''0.0.0''),
           (''@prisma/client'',
              (case prismaClientVersion of None \<Rightarrow> ''Not found'' | Some v \<Rightarrow> v)),
           (''Current platform'', platform),
           (if getCliQueryEngineType w = libqueryEngine then ''Query Engine (Node-API)''
            else ''Query Engine (Binary)'', engineRowValue w q),
           (''Migration Engine'', engineRowValue w m),
           (''Introspection Engine'', engineRowValue w i),
           (''Format Engine'', engineRowValue w f),
           (''Studio'', ''0.460.0''),
           (''Default Engines Hash'', ''1c05d2fd02981d04d5367319e82f44e1c44ec0b7'')]
          @ (if featureFlags \<noteq> [] then [(''Preview Features'', join '', '' featureFlags)] else [])"
proof -
  from assms obtain prismaClientVersion platform q m i f schemaPath featureFlags where
    h: "getInstalledPrismaClientVersion w = Inr prismaClientVersion"
      "getPlatform w = Inr platform"
      "getEngineInfo w (getCliQueryEngineType w) = Inr q"
      "getEngineInfo w migrationEngine = Inr m"
      "getEngineInfo w introspectionEngine = Inr i"
      "getEngineInfo w prismaFmt = Inr f"
      "getSchemaPath w = Inr schemaPath"
      "getFeatureFlags w schemaPath = Inr featureFlags"
    unfolding versionInfoRows_def Let_def await_eq_Inr by blast
  have "rows =
          [(''prisma'', ''0.0.0''),
           (''@prisma/client'',
              (case prismaClientVersion of None \<Rightarrow> ''Not found'' | Some v \<Rightarrow> v)),
           (''Current platform'', platform),
           (if getCliQueryEngineType w = libqueryEngine then ''Query Engine (Node-API)''
            else ''Query Engine (Binary)'', engineRowValue w q),
           (''Migration Engine'', engineRowValue w m),
           (''Introspection Engine'', engineRowValue w i),
           (''Format Engine'', engineRowValue w f),
           (''Studio'', ''0.460.0''),
           (''Default Engines Hash'', ''1c05d2fd02981d04d5367319e82f44e1c44ec0b7'')]
          @ (if featureFlags \<noteq> [] then [(''Preview Features'', join '', '' featureFlags)] else [])"
    using assms h
    by (auto simp: versionInfoRows_def Let_def engines_hash constructEngineInfoString_eq
        packageJson_name_def packageJson_version_def packageJson_studio_server_def
        split: if_splits)
  with h show ?thesis
    by blast
qed

lemma parse_report:
  assumes "arg w argv = Inr a" "\<not> arg_help a" "parse w argv = Inr out"
  shows "\<exists>env rows. loadEnvFile w (process_env w) = Inr env
           \<and> versionInfoRows (w\<lparr>process_env := env\<rparr>) = Inr rows
           \<and> out = Text (printTable rows (arg_json a))"
  using assms by (auto simp: parse_def await_eq_Inr)

lemma getFeatureFlags_env [simp]:
  "getFeatureFlags (w\<lparr>process_env := env\<rparr>) schemaPath = getFeatureFlags w schemaPath"
  by (simp add: getFeatureFlags_def)

lemma demo_getEngineInfo:
  "getEngineInfo demo_world libqueryEngine
     = Inr \<lparr>path = ''/cli/custom/libquery.node'', version = ''1c05d2f'',
            fromEnvVar = Some ''PRISMA_QUERY_ENGINE_LIBRARY''\<rparr>"
  "getEngineInfo demo_world migrationEngine
     = Inr \<lparr>path = ''/cli/engines/migration'', version = ''1c05d2f'', fromEnvVar = None\<rparr>"
  "getEngineInfo demo_world introspectionEngine
     = Inr \<lparr>path = ''/cli/engines/introspection'', version = ''1c05d2f'', fromEnvVar = None\<rparr>"
  "getEngineInfo demo_world prismaFmt
     = Inr \<lparr>path = ''/cli/engines/fmt'', version = ''1c05d2f'', fromEnvVar = None\<rparr>"
  by (simp_all add: getEngineInfo_def demo_world_def demo_engineEnvVarMap_def
      demo_resolveEnginePath_def existsSync_def)

lemma demo_getFeatureFlags:
  "getFeatureFlags demo_world (Some ''/cli/schema.prisma'') = Inr [''a'', ''b'', ''c'']"
  by (simp add: getFeatureFlags_def truthy_def demo_world_def)

lemma demo_versionInfoRows: "versionInfoRows demo_world = Inr demo_rows"
proof -
  have sel: "getInstalledPrismaClientVersion demo_world = Inr None"
    "getPlatform demo_world = Inr ''debian''"
    "getCliQueryEngineType demo_world = libqueryEngine"
    "getSchemaPath demo_world = Inr (Some ''/cli/schema.prisma'')"
    "cwd demo_world = ''/cli''" "path_relative demo_world = demo_relative"
    by (simp_all add: demo_world_def)
  show ?thesis
    by (simp add: versionInfoRows_def Let_def sel demo_getEngineInfo demo_getFeatureFlags
        constructEngineInfoString_def demo_relative_def demo_rows_def engines_hash
        packageJson_name_def packageJson_version_def packageJson_studio_server_def)
qed

lemma getEngineInfo_same:
  assumes "process_env w' = process_env w" "files w' = files w"
    and "engineEnvVarMap w' = engineEnvVarMap w" "getVersion w' = getVersion w"
    and "resolveEnginePath w' = resolveEnginePath w"
  shows "getEngineInfo w' engineType = getEngineInfo w engineType"
proof -
  have h: "existsSync w' = existsSync w"
    using assms(2) by (simp add: fun_eq_iff existsSync_def)
  show ?thesis
    unfolding getEngineInfo_def h assms ..
qed

lemma no_schema_versionInfoRows: "versionInfoRows no_schema_world = Inr (take 9 demo_rows)"
proof -
  have sel: "getInstalledPrismaClientVersion no_schema_world = Inr None"
    "getPlatform no_schema_world = Inr ''debian''"
    "getCliQueryEngineType no_schema_world = libqueryEngine"
    "getSchemaPath no_schema_world = Inr None"
    "cwd no_schema_world = ''/cli''" "path_relative no_schema_world = demo_relative"
    by (simp_all add: no_schema_world_def demo_world_def)
  have eng: "getEngineInfo no_schema_world engineType = getEngineInfo demo_world engineType"
    for engineType
    by (rule getEngineInfo_same) (simp_all add: no_schema_world_def)
  have flags: "getFeatureFlags no_schema_world None = Inr []"
    by (simp add: getFeatureFlags_def truthy_def)
  show ?thesis
    by (simp add: versionInfoRows_def Let_def sel eng flags demo_getEngineInfo
        constructEngineInfoString_def demo_relative_def demo_rows_def engines_hash
        packageJson_name_def packageJson_version_def packageJson_studio_server_def)
qed

lemma binary_getEngineInfo:
  "getEngineInfo binary_world queryEngine
     = Inr \<lparr>path = ''/cli/engines/query-engine'', version = ''1c05d2f'', fromEnvVar = None\<rparr>"
  by (simp add: getEngineInfo_def binary_world_def demo_world_def demo_engineEnvVarMap_def
      demo_resolveEnginePath_def existsSync_def)

lemma binary_versionInfoRows:
  "versionInfoRows binary_world =
     Inr (demo_rows [1 := (''@prisma/client'', ''3.15.0''),
                     3 := (''Query Engine (Binary)'', ''1c05d2f (at engines/query-engine)'')])"
proof -
  have sel: "getInstalledPrismaClientVersion binary_world = Inr (Some ''3.15.0'')"
    "getPlatform binary_world = Inr ''debian''"
    "getCliQueryEngineType binary_world = queryEngine"
    "getSchemaPath binary_world = Inr (Some ''/cli/schema.prisma'')"
    "cwd binary_world = ''/cli''" "path_relative binary_world = demo_relative"
    by (simp_all add: binary_world_def demo_world_def)
  have eng: "getEngineInfo binary_world engineType = getEngineInfo demo_world engineType"
    for engineType
    by (rule getEngineInfo_same) (simp_all add: binary_world_def)
  have flags: "getFeatureFlags binary_world (Some ''/cli/schema.prisma'') = Inr [''a'', ''b'', ''c'']"
    by (simp add: getFeatureFlags_def truthy_def binary_world_def demo_world_def)
  show ?thesis
    by (simp add: versionInfoRows_def Let_def sel flags binary_getEngineInfo
        eng [of migrationEngine] eng [of introspectionEngine] eng [of prismaFmt]
        demo_getEngineInfo constructEngineInfoString_def demo_relative_def demo_rows_def
        engines_hash packageJson_name_def packageJson_version_def packageJson_studio_server_def)
qed

lemma no_schema_parse:
  "parse no_schema_world [] = Inr (Text (printTable (take 9 demo_rows) False))"
proof -
  have "no_schema_world\<lparr>process_env := process_env no_schema_world\<rparr> = no_schema_world"
    by simp
  moreover have "arg no_schema_world = demo_arg"
    "loadEnvFile no_schema_world = (\<lambda>env. Inr env)"
    by (simp_all add: no_schema_world_def demo_world_def)
  ultimately show ?thesis
    by (simp add: parse_def demo_arg_def no_schema_versionInfoRows)
qed

lemma demo_loadEnvFile:
  "loadEnvFile demo_world (process_env demo_world) = Inr (process_env demo_world)"
  "demo_world\<lparr>process_env := process_env demo_world\<rparr> = demo_world"
  by (simp_all add: demo_world_def)

lemma demo_parse:
  "parse demo_world argv =
     (case demo_arg argv of
        Inl e \<Rightarrow> Inr (help_method demo_world (Some (message e)))
      | Inr a \<Rightarrow>
          Inr (Text (if arg_help a then Version_help demo_world
                     else printTable demo_rows (arg_json a))))"
proof -
  have "arg demo_world = demo_arg"
    by (simp add: demo_world_def)
  then show ?thesis
    by (simp add: parse_def help_method_def demo_versionInfoRows demo_loadEnvFile
        split: sum.splits)
qed

lemma demo_Version_help:
  "Version_help demo_world =
     ''\<newline>  Print current version of Prisma components\<newline>\<newline>  Usage\<newline>\<newline>    $ prisma -v [options]\<newline>    $ prisma version [options]\<newline>\<newline>  Options\<newline>\<newline>    -h, --help     Display this help message\<newline>        --json     Output JSON\<newline>''"
  by (simp add: Version_help_def demo_world_def)

lemma join_hd_tl:
  "xs \<noteq> [] \<Longrightarrow> join sep xs = hd xs @ concat (map (\<lambda>x. sep @ x) (tl xs))"
  by (cases xs) (simp_all add: join_concat)

text \<open>
  Claim C7, as amended.  When the argument parser succeeds on the argument vector and its
  result has the help flag, \<open>parse\<close> returns the help text (the template below, through
  \<open>format\<close>), whatever the other flags are, and consults nothing else: two worlds with the
  same argument parser and the same text formatting give the same result, also where no
  report can be produced.
\<close>

theorem help_short_circuits:
  assumes "arg w argv = Inr a" and "arg_help a"
  shows "parse w argv =
           Inr (Text (format w
             (''\<newline>  Print current version of Prisma components\<newline>\<newline>  ''
              @ chalk_bold w ''Usage''
              @ ''\<newline>\<newline>    '' @ chalk_dim w ''$'' @ '' prisma -v [options]\<newline>    ''
              @ chalk_dim w ''$'' @ '' prisma version [options]\<newline>\<newline>  ''
              @ chalk_bold w ''Options''
              @ ''\<newline>\<newline>    -h, --help     Display this help message\<newline>''
              @ ''        --json     Output JSON\<newline>'')))
         \<and> (\<forall>w'. arg w' = arg w \<and> format w' = format w \<and> chalk_bold w' = chalk_bold w
                  \<and> chalk_dim w' = chalk_dim w \<longrightarrow> parse w' argv = parse w argv)"
  using assms by (simp add: parse_def help_method_def Version_help_def)

theorem help_short_circuits_witness:
  "arg demo_world [''--json'', ''--telemetry-information'', ''x'', ''-h'']
     = Inr \<lparr>arg_help = True, arg_version = False, arg_json = True,
            arg_telemetry_information = Some ''x'', arg_positional = []\<rparr>
   \<and> parse demo_world [''--json'', ''--telemetry-information'', ''x'', ''-h'']
       = Inr (Text (''\<newline>  Print current version of Prisma components\<newline>\<newline>  Usage\<newline>\<newline>    $ prisma -v [options]\<newline>    $ prisma version [options]\<newline>\<newline>  Options\<newline>\<newline>    -h, --help     Display this help message\<newline>        --json     Output JSON\<newline>''))
   \<and> parse broken_world [''--json'', ''--telemetry-information'', ''x'', ''-h'']
       = parse demo_world [''--json'', ''--telemetry-information'', ''x'', ''-h'']
   \<and> parse demo_world [''--json'', ''--telemetry-information'', ''x'']
       = Inr (Text (printTable demo_rows True))
   \<and> parse demo_world [''--json'', ''--telemetry-information'', ''x'', ''-h'']
       \<noteq> parse demo_world [''--json'', ''--telemetry-information'', ''x'']"
proof -
  have a: "arg demo_world [''--json'', ''--telemetry-information'', ''x'', ''-h'']
     = Inr \<lparr>arg_help = True, arg_version = False, arg_json = True,
            arg_telemetry_information = Some ''x'', arg_positional = []\<rparr>"
    by (simp add: demo_world_def demo_arg_def)
  have h: "arg_help \<lparr>arg_help = True, arg_version = False, arg_json = True,
            arg_telemetry_information = Some ''x'', arg_positional = []\<rparr>"
    by simp
  have b: "arg broken_world = arg demo_world \<and> format broken_world = format demo_world
      \<and> chalk_bold broken_world = chalk_bold demo_world
      \<and> chalk_dim broken_world = chalk_dim demo_world"
    by (simp add: broken_world_def)
  have sel: "format demo_world = (\<lambda>s. s)" "chalk_bold demo_world = (\<lambda>s. s)"
    "chalk_dim demo_world = (\<lambda>s. s)"
    by (simp_all add: demo_world_def)
  have r: "parse demo_world [''--json'', ''--telemetry-information'', ''x'']
       = Inr (Text (printTable demo_rows True))"
    by (simp add: demo_parse demo_arg_def)
  have c: "Version_help demo_world \<noteq> printTable demo_rows True"
    by (simp add: demo_Version_help printTable_json)
  have p: "parse demo_world [''--json'', ''--telemetry-information'', ''x'', ''-h'']
       = Inr (Text (Version_help demo_world))"
    by (simp add: demo_parse demo_arg_def)
  show ?thesis
    using help_short_circuits [OF a h] b c
    by (simp add: a r p sel demo_Version_help)
qed

text \<open>
  The claim as it stands fails for an argument vector that holds \<open>--help\<close> behind a
  positional argument: the parser succeeds, the help flag is not set, and \<open>parse\<close>
  returns the report.
\<close>

theorem help_short_circuits_counterexample:
  "''--help'' \<in> set [''foo'', ''--help'']
   \<and> arg demo_world [''foo'', ''--help'']
       = Inr \<lparr>arg_help = False, arg_version = False, arg_json = False,
              arg_telemetry_information = None, arg_positional = [''foo'', ''--help'']\<rparr>
   \<and> parse demo_world [''foo'', ''--help''] = Inr (Text (printTable demo_rows False))
   \<and> parse demo_world [''foo'', ''--help''] \<noteq> Inr (Text (Version_help demo_world))"
proof -
  have a: "arg demo_world [''foo'', ''--help'']
       = Inr \<lparr>arg_help = False, arg_version = False, arg_json = False,
              arg_telemetry_information = None, arg_positional = [''foo'', ''--help'']\<rparr>"
    by (simp add: demo_world_def demo_arg_def)
  have p: "parse demo_world [''foo'', ''--help''] = Inr (Text (printTable demo_rows False))"
    by (simp add: demo_parse demo_arg_def)
  have c: "printTable demo_rows False \<noteq> Version_help demo_world"
    by (simp add: demo_Version_help printTable_def demo_rows_def padEnd_def maxPad_def)
  show ?thesis
    using a p c by simp
qed

text \<open>
  Claim C8.  In every report that \<open>parse\<close> produces, the rows are those that
  \<open>versionInfoRows\<close> builds; the second row is the one labelled \<open>@prisma/client\<close>, no
  other row has that label, and its value is the installed client version when there is
  one and \<open>Not found\<close> when there is none.
\<close>

theorem client_version_row:
  assumes "arg w argv = Inr a" and "\<not> arg_help a" and "parse w argv = Inr out"
  shows "\<exists>env rows installed.
           loadEnvFile w (process_env w) = Inr env
           \<and> versionInfoRows (w\<lparr>process_env := env\<rparr>) = Inr rows
           \<and> out = Text (printTable rows (arg_json a))
           \<and> getInstalledPrismaClientVersion w = Inr installed
           \<and> rows ! 1 = (''@prisma/client'',
                          case installed of None \<Rightarrow> ''Not found'' | Some v \<Rightarrow> v)
           \<and> filter (\<lambda>r. fst r = ''@prisma/client'') rows = [rows ! 1]"
proof -
  from parse_report [OF assms] obtain env rows where
    env: "loadEnvFile w (process_env w) = Inr env"
    and rows: "versionInfoRows (w\<lparr>process_env := env\<rparr>) = Inr rows"
    and out: "out = Text (printTable rows (arg_json a))"
    by blast
  from versionInfoRows_Inr [OF rows] obtain installed platform q m i f featureFlags where
    inst: "getInstalledPrismaClientVersion w = Inr installed"
    and r: "rows =
          [(''prisma'', ''0.0.0''),
           (''@prisma/client'', (case installed of None \<Rightarrow> ''Not found'' | Some v \<Rightarrow> v)),
           (''Current platform'', platform),
           (if getCliQueryEngineType w = libqueryEngine then ''Query Engine (Node-API)''
            else ''Query Engine (Binary)'', engineRowValue (w\<lparr>process_env := env\<rparr>) q),
           (''Migration Engine'', engineRowValue (w\<lparr>process_env := env\<rparr>) m),
           (''Introspection Engine'', engineRowValue (w\<lparr>process_env := env\<rparr>) i),
           (''Format Engine'', engineRowValue (w\<lparr>process_env := env\<rparr>) f),
           (''Studio'', ''0.460.0''),
           (''Default Engines Hash'', ''1c05d2fd02981d04d5367319e82f44e1c44ec0b7'')]
          @ (if featureFlags \<noteq> [] then [(''Preview Features'', join '', '' featureFlags)] else [])"
    by auto
  have l1: "rows ! 1 = (''@prisma/client'',
        case installed of None \<Rightarrow> ''Not found'' | Some v \<Rightarrow> v)"
    by (simp add: r)
  have l2: "filter (\<lambda>r. fst r = ''@prisma/client'') rows = [rows ! 1]"
    by (simp add: r)
  show ?thesis
    by (rule exI [of _ env], rule exI [of _ rows], rule exI [of _ installed])
      (intro conjI env rows out inst l1 l2)
qed

theorem client_version_row_witness:
  "arg demo_world [] = Inr \<lparr>arg_help = False, arg_version = False, arg_json = False,
       arg_telemetry_information = None, arg_positional = []\<rparr>
   \<and> parse demo_world [] = Inr (Text (printTable demo_rows False))
   \<and> versionInfoRows demo_world = Inr demo_rows
   \<and> getInstalledPrismaClientVersion demo_world = Inr None
   \<and> demo_rows ! 1 = (''@prisma/client'', ''Not found'')
   \<and> getInstalledPrismaClientVersion binary_world = Inr (Some ''3.15.0'')
   \<and> versionInfoRows binary_world =
         Inr (demo_rows [1 := (''@prisma/client'', ''3.15.0''),
                      3 := (''Query Engine (Binary)'', ''1c05d2f (at engines/query-engine)'')])
   \<and> (demo_rows [1 := (''@prisma/client'', ''3.15.0''),
                      3 := (''Query Engine (Binary)'', ''1c05d2f (at engines/query-engine)'')]) ! 1
       = (''@prisma/client'', ''3.15.0'')"
proof -
  have a: "arg demo_world [] = Inr \<lparr>arg_help = False, arg_version = False, arg_json = False,
       arg_telemetry_information = None, arg_positional = []\<rparr>"
    by (simp add: demo_world_def demo_arg_def)
  have p: "parse demo_world [] = Inr (Text (printTable demo_rows False))"
    by (simp add: demo_parse demo_arg_def)
  have "getInstalledPrismaClientVersion demo_world = Inr None"
    by (simp add: demo_world_def)
  moreover have "demo_rows ! 1 = (''@prisma/client'', ''Not found'')"
    by (simp add: demo_rows_def)
  moreover have "getInstalledPrismaClientVersion binary_world = Inr (Some ''3.15.0'')"
    by (simp add: binary_world_def)
  moreover have "(demo_rows [1 := (''@prisma/client'', ''3.15.0''),
                      3 := (''Query Engine (Binary)'', ''1c05d2f (at engines/query-engine)'')]) ! 1
       = (''@prisma/client'', ''3.15.0'')"
    by (simp add: demo_rows_def)
  ultimately show ?thesis
    using client_version_row [OF a _ p] a p
    by (simp add: demo_versionInfoRows binary_versionInfoRows)
qed

text \<open>
  Claim C4.  In every report that \<open>parse\<close> produces, the rows are those that
  \<open>versionInfoRows\<close> builds: nine fixed rows, followed by a row \<open>Preview Features\<close> if
  and only if the list of feature flags is not empty.  The value of that row is the first
  flag followed, for every further flag, by a comma, a space and the flag:
  \<open>["a","b"]\<close> gives \<open>"a, b"\<close>.  The flags are those of the first generator whose list
  of preview features is not empty.
\<close>

theorem preview_features_row:
  "(\<forall>a out. arg w argv = Inr a \<and> \<not> arg_help a \<and> parse w argv = Inr out \<longrightarrow>
      (\<exists>env rows schemaPath featureFlags.
         loadEnvFile w (process_env w) = Inr env
         \<and> versionInfoRows (w\<lparr>process_env := env\<rparr>) = Inr rows
         \<and> out = Text (printTable rows (arg_json a))
         \<and> getSchemaPath w = Inr schemaPath
         \<and> getFeatureFlags w schemaPath = Inr featureFlags
         \<and> length (take 9 rows) = 9
         \<and> ''Preview Features'' \<notin> fst ` set (take 9 rows)
         \<and> drop 9 rows =
             (if featureFlags \<noteq> []
              then [(''Preview Features'',
                     hd featureFlags @ concat (map (\<lambda>flag. '', '' @ flag) (tl featureFlags)))]
              else [])
         \<and> (''Preview Features'' \<in> fst ` set rows \<longleftrightarrow> featureFlags \<noteq> [])))
   \<and> join '', '' [''a'', ''b''] = ''a, b''
   \<and> (\<forall>schemaPath datamodel config pre g post.
         schemaPath \<noteq> [] \<and> getSchema w = Inr datamodel \<and> getConfig w datamodel = Inr config
         \<and> generators config = pre @ g # post
         \<and> (\<forall>h \<in> set pre. previewFeatures h = []) \<and> previewFeatures g \<noteq> [] \<longrightarrow>
         getFeatureFlags w (Some schemaPath) = Inr (previewFeatures g))"
proof (intro conjI allI impI)
  fix a out
  assume h: "arg w argv = Inr a \<and> \<not> arg_help a \<and> parse w argv = Inr out"
  from parse_report [of w argv a out] h obtain env rows where
    env: "loadEnvFile w (process_env w) = Inr env"
    and rows: "versionInfoRows (w\<lparr>process_env := env\<rparr>) = Inr rows"
    and out: "out = Text (printTable rows (arg_json a))"
    by blast
  from versionInfoRows_Inr [OF rows] obtain installed platform q m i f schemaPath featureFlags where
    sp: "getSchemaPath w = Inr schemaPath"
    and ff: "getFeatureFlags w schemaPath = Inr featureFlags"
    and r: "rows =
          [(''prisma'', ''0.0.0''),
           (''@prisma/client'', (case installed of None \<Rightarrow> ''Not found'' | Some v \<Rightarrow> v)),
           (''Current platform'', platform),
           (if getCliQueryEngineType w = libqueryEngine then ''Query Engine (Node-API)''
            else ''Query Engine (Binary)'', engineRowValue (w\<lparr>process_env := env\<rparr>) q),
           (''Migration Engine'', engineRowValue (w\<lparr>process_env := env\<rparr>) m),
           (''Introspection Engine'', engineRowValue (w\<lparr>process_env := env\<rparr>) i),
           (''Format Engine'', engineRowValue (w\<lparr>process_env := env\<rparr>) f),
           (''Studio'', ''0.460.0''),
           (''Default Engines Hash'', ''1c05d2fd02981d04d5367319e82f44e1c44ec0b7'')]
          @ (if featureFlags \<noteq> [] then [(''Preview Features'', join '', '' featureFlags)] else [])"
    by auto
  have l1: "length (take 9 rows) = 9"
    by (simp add: r)
  have l2: "''Preview Features'' \<notin> fst ` set (take 9 rows)"
    by (simp add: r)
  have l3: "drop 9 rows =
             (if featureFlags \<noteq> []
              then [(''Preview Features'',
                     hd featureFlags @ concat (map (\<lambda>flag. '', '' @ flag) (tl featureFlags)))]
              else [])"
    by (simp add: r join_hd_tl)
  have l4: "''Preview Features'' \<in> fst ` set rows \<longleftrightarrow> featureFlags \<noteq> []"
    by (cases "featureFlags = []") (simp_all add: r)
  show "\<exists>env rows schemaPath featureFlags.
         loadEnvFile w (process_env w) = Inr env
         \<and> versionInfoRows (w\<lparr>process_env := env\<rparr>) = Inr rows
         \<and> out = Text (printTable rows (arg_json a))
         \<and> getSchemaPath w = Inr schemaPath
         \<and> getFeatureFlags w schemaPath = Inr featureFlags
         \<and> length (take 9 rows) = 9
         \<and> ''Preview Features'' \<notin> fst ` set (take 9 rows)
         \<and> drop 9 rows =
             (if featureFlags \<noteq> []
              then [(''Preview Features'',
                     hd featureFlags @ concat (map (\<lambda>flag. '', '' @ flag) (tl featureFlags)))]
              else [])
         \<and> (''Preview Features'' \<in> fst ` set rows \<longleftrightarrow> featureFlags \<noteq> [])"
    by (rule exI [of _ env], rule exI [of _ rows], rule exI [of _ schemaPath],
        rule exI [of _ featureFlags])
      (intro conjI env rows out sp ff l1 l2 l3 l4)
next
  show "join '', '' [''a'', ''b''] = ''a, b''"
    by simp
next
  fix schemaPath datamodel config pre g post
  assume h: "(schemaPath :: string) \<noteq> [] \<and> getSchema w = Inr datamodel \<and> getConfig w datamodel = Inr config
         \<and> generators config = pre @ g # post
         \<and> (\<forall>h \<in> set pre. previewFeatures h = []) \<and> previewFeatures g \<noteq> []"
  then have "find (\<lambda>g. previewFeatures g \<noteq> []) (generators config) = Some g"
    using find_first [of pre "\<lambda>g. previewFeatures g \<noteq> []" g post] by simp
  then show "getFeatureFlags w (Some schemaPath) = Inr (previewFeatures g)"
    using h by (simp add: getFeatureFlags_cases truthy_def)
qed

theorem preview_features_row_witness:
  "parse demo_world [''--json''] = Inr (Text (printTable demo_rows True))
   \<and> versionInfoRows demo_world = Inr demo_rows
   \<and> getSchemaPath demo_world = Inr (Some ''/cli/schema.prisma'')
   \<and> getFeatureFlags demo_world (Some ''/cli/schema.prisma'') = Inr [''a'', ''b'', ''c'']
   \<and> drop 9 demo_rows = [(''Preview Features'', ''a, b, c'')]
   \<and> getConfig demo_world ''generator client''
       = Inr \<lparr>generators = [\<lparr>previewFeatures = []\<rparr>,
                             \<lparr>previewFeatures = [''a'', ''b'', ''c'']\<rparr>]\<rparr>
   \<and> getSchemaPath no_schema_world = Inr None
   \<and> versionInfoRows no_schema_world = Inr (take 9 demo_rows)
   \<and> parse no_schema_world [] = Inr (Text (printTable (take 9 demo_rows) False))
   \<and> ''Preview Features'' \<notin> fst ` set (take 9 demo_rows)"
proof -
  have "getSchemaPath demo_world = Inr (Some ''/cli/schema.prisma'')"
    "getConfig demo_world ''generator client''
       = Inr \<lparr>generators = [\<lparr>previewFeatures = []\<rparr>,
                             \<lparr>previewFeatures = [''a'', ''b'', ''c'']\<rparr>]\<rparr>"
    by (simp_all add: demo_world_def)
  moreover have "drop 9 demo_rows = [(''Preview Features'', ''a, b, c'')]"
    by (simp add: demo_rows_def)
  moreover have "parse demo_world [''--json''] = Inr (Text (printTable demo_rows True))"
    by (simp add: demo_parse demo_arg_def)
  moreover have "snd (last demo_rows) = join '', '' [''a'', ''b'', ''c'']"
    by (simp add: demo_rows_def)
  moreover have "getSchemaPath no_schema_world = Inr None"
    by (simp add: no_schema_world_def)
  moreover have "''Preview Features'' \<notin> fst ` set (take 9 demo_rows)"
    by (simp add: demo_rows_def)
  ultimately show ?thesis
    using preview_features_row [of demo_world "[''--json'']"]
    by (simp add: demo_getFeatureFlags demo_versionInfoRows no_schema_versionInfoRows
        no_schema_parse)
qed

text \<open>
  Claim C10.  In every report that \<open>parse\<close> produces, the rows are those that
  \<open>versionInfoRows\<close> builds, and the nine fixed rows have the labels below: the label
  of the query engine row is \<open>Query Engine (Node-API)\<close> when the query engine type of the
  CLI is the library engine and \<open>Query Engine (Binary)\<close> otherwise, and no other label
  depends on the type.  The values of the four engine rows are built from the
  \<open>EngineInfo\<close> of the four engines as \<open><version> (at <relative path>)\<close>, with
  \<open>, resolved by <ENV_VAR>\<close> behind the path when the path came from an environment
  variable.
\<close>

theorem engine_rows:
  assumes "arg w argv = Inr a" and "\<not> arg_help a" and "parse w argv = Inr out"
  shows "\<exists>env rows q m i f.
           loadEnvFile w (process_env w) = Inr env
           \<and> versionInfoRows (w\<lparr>process_env := env\<rparr>) = Inr rows
           \<and> out = Text (printTable rows (arg_json a))
           \<and> map fst (take 9 rows) =
               [''prisma'', ''@prisma/client'', ''Current platform'',
                if getCliQueryEngineType w = libqueryEngine then ''Query Engine (Node-API)''
                else ''Query Engine (Binary)'',
                ''Migration Engine'', ''Introspection Engine'', ''Format Engine'',
                ''Studio'', ''Default Engines Hash'']
           \<and> (drop 9 rows = [] \<or> map fst (drop 9 rows) = [''Preview Features''])
           \<and> getEngineInfo (w\<lparr>process_env := env\<rparr>) (getCliQueryEngineType w) = Inr q
           \<and> getEngineInfo (w\<lparr>process_env := env\<rparr>) migrationEngine = Inr m
           \<and> getEngineInfo (w\<lparr>process_env := env\<rparr>) introspectionEngine = Inr i
           \<and> getEngineInfo (w\<lparr>process_env := env\<rparr>) prismaFmt = Inr f
           \<and> map snd (take 4 (drop 3 rows)) =
               map (\<lambda>info. version info @ '' (at '' @ path_relative w (cwd w) (path info)
                            @ (case fromEnvVar info of
                                 None \<Rightarrow> ''''
                               | Some envVar \<Rightarrow>
                                   if envVar = [] then '''' else '', resolved by '' @ envVar)
                            @ '')'')
                 [q, m, i, f]"
proof -
  from parse_report [OF assms] obtain env rows where
    env: "loadEnvFile w (process_env w) = Inr env"
    and rows: "versionInfoRows (w\<lparr>process_env := env\<rparr>) = Inr rows"
    and out: "out = Text (printTable rows (arg_json a))"
    by blast
  let ?w = "w\<lparr>process_env := env\<rparr>"
  from versionInfoRows_Inr [OF rows] obtain installed platform q m i f featureFlags where
    q: "getEngineInfo ?w (getCliQueryEngineType w) = Inr q"
    and m: "getEngineInfo ?w migrationEngine = Inr m"
    and i: "getEngineInfo ?w introspectionEngine = Inr i"
    and f: "getEngineInfo ?w prismaFmt = Inr f"
    and r: "rows =
          [(''prisma'', ''0.0.0''),
           (''@prisma/client'', (case installed of None \<Rightarrow> ''Not found'' | Some v \<Rightarrow> v)),
           (''Current platform'', platform),
           (if getCliQueryEngineType w = libqueryEngine then ''Query Engine (Node-API)''
            else ''Query Engine (Binary)'', engineRowValue ?w q),
           (''Migration Engine'', engineRowValue ?w m),
           (''Introspection Engine'', engineRowValue ?w i),
           (''Format Engine'', engineRowValue ?w f),
           (''Studio'', ''0.460.0''),
           (''Default Engines Hash'', ''1c05d2fd02981d04d5367319e82f44e1c44ec0b7'')]
          @ (if featureFlags \<noteq> [] then [(''Preview Features'', join '', '' featureFlags)] else [])"
    by auto
  have l1: "map fst (take 9 rows) =
               [''prisma'', ''@prisma/client'', ''Current platform'',
                if getCliQueryEngineType w = libqueryEngine then ''Query Engine (Node-API)''
                else ''Query Engine (Binary)'',
                ''Migration Engine'', ''Introspection Engine'', ''Format Engine'',
                ''Studio'', ''Default Engines Hash'']"
    by (simp add: r)
  have l2: "drop 9 rows = [] \<or> map fst (drop 9 rows) = [''Preview Features'']"
    by (simp add: r)
  have l3: "map snd (take 4 (drop 3 rows)) =
               map (\<lambda>info. version info @ '' (at '' @ path_relative w (cwd w) (path info)
                            @ (case fromEnvVar info of
                                 None \<Rightarrow> ''''
                               | Some envVar \<Rightarrow>
                                   if envVar = [] then '''' else '', resolved by '' @ envVar)
                            @ '')'')
                 [q, m, i, f]"
    by (simp add: r engineRowValue_def)
  show ?thesis
    by (rule exI [of _ env], rule exI [of _ rows], rule exI [of _ q], rule exI [of _ m],
        rule exI [of _ i], rule exI [of _ f])
      (intro conjI env rows out l1 l2 q m i f l3)
qed

theorem engine_rows_witness:
  "parse demo_world [] = Inr (Text (printTable demo_rows False))
   \<and> versionInfoRows demo_world = Inr demo_rows
   \<and> getCliQueryEngineType demo_world = libqueryEngine
   \<and> map fst (take 9 demo_rows) =
       [''prisma'', ''@prisma/client'', ''Current platform'', ''Query Engine (Node-API)'',
        ''Migration Engine'', ''Introspection Engine'', ''Format Engine'', ''Studio'',
        ''Default Engines Hash'']
   \<and> getEngineInfo demo_world libqueryEngine
       = Inr \<lparr>path = ''/cli/custom/libquery.node'', version = ''1c05d2f'',
              fromEnvVar = Some ''PRISMA_QUERY_ENGINE_LIBRARY''\<rparr>
   \<and> snd (demo_rows ! 3)
       = ''1c05d2f (at custom/libquery.node, resolved by PRISMA_QUERY_ENGINE_LIBRARY)''
   \<and> snd (demo_rows ! 4) = ''1c05d2f (at engines/migration)''
   \<and> getCliQueryEngineType binary_world = queryEngine
   \<and> versionInfoRows binary_world =
         Inr (demo_rows [1 := (''@prisma/client'', ''3.15.0''),
                      3 := (''Query Engine (Binary)'', ''1c05d2f (at engines/query-engine)'')])"
proof -
  have a: "arg demo_world [] = Inr \<lparr>arg_help = False, arg_version = False, arg_json = False,
       arg_telemetry_information = None, arg_positional = []\<rparr>"
    by (simp add: demo_world_def demo_arg_def)
  have p: "parse demo_world [] = Inr (Text (printTable demo_rows False))"
    by (simp add: demo_parse demo_arg_def)
  have "getCliQueryEngineType demo_world = libqueryEngine"
    "getCliQueryEngineType binary_world = queryEngine"
    by (simp_all add: demo_world_def binary_world_def)
  then show ?thesis
    using engine_rows [OF a _ p] p
    by (simp add: demo_rows_def demo_getEngineInfo demo_versionInfoRows [unfolded demo_rows_def]
        binary_versionInfoRows [unfolded demo_rows_def])
qed

end
